theory Spec2Isabelle
  imports Complex_Main
begin

section \<open>Python values, errors and the float utilities\<close>

text \<open>
  The wizard \<^verbatim>\<open>account.move.import\<close> of
  \<^verbatim>\<open>account_move_csv_import/wizard/import_move.py\<close> works on dynamically typed
  dictionaries.  The values that its decoders, \<^verbatim>\<open>update_pivot\<close> and
  \<^verbatim>\<open>create_moves_from_pivot\<close> store in a pivot line are collected in one datatype.
  \<open>PyCode v\<close>, \<open>PyRef v\<close> and \<open>PyRecordset j\<close> are the one-entry dictionaries
  \<^verbatim>\<open>{'code': v}\<close>, \<^verbatim>\<open>{'ref': v}\<close> and \<^verbatim>\<open>{'recordset': j}\<close>.
  A finite Python float is the real number it denotes.  The float addition and
  subtraction of the running balance of the assembler are parameters (\<open>float_ops\<close>
  below), so that nothing is assumed of their rounding.
\<close>

datatype pydate = YMD nat nat nat

datatype pyval =
    PyNone
  | PyBool bool
  | PyInt int
  | PyFloat real
  | PyStr string
  | PyDatetime pydate
  | PyDate pydate
  | PyCode pyval
  | PyRef pyval
  | PyRecordset int

text \<open>Truth value of an object, as \<^verbatim>\<open>if x\<close>, \<^verbatim>\<open>x and y\<close>, \<^verbatim>\<open>x or y\<close> test it.\<close>

fun truthy :: "pyval \<Rightarrow> bool" where
  "truthy PyNone = False"
| "truthy (PyBool b) = b"
| "truthy (PyInt n) = (n \<noteq> 0)"
| "truthy (PyFloat r) = (r \<noteq> 0)"
| "truthy (PyStr s) = (s \<noteq> [])"
| "truthy (PyDatetime d) = True"
| "truthy (PyDate d) = True"
| "truthy (PyCode v) = True"
| "truthy (PyRef v) = True"
| "truthy (PyRecordset j) = True"

definition py_or :: "pyval \<Rightarrow> pyval \<Rightarrow> pyval" where
  "py_or a b = (if truthy a then a else b)"

definition py_and :: "pyval \<Rightarrow> pyval \<Rightarrow> pyval" where
  "py_and a b = (if truthy a then b else a)"

text \<open>
  Python's \<^verbatim>\<open>==\<close>: \<^verbatim>\<open>bool\<close>, \<^verbatim>\<open>int\<close> and \<^verbatim>\<open>float\<close> compare by their
  numeric value (\<^verbatim>\<open>False == 0\<close>), everything else by type and content.
\<close>

primrec py_norm :: "pyval \<Rightarrow> pyval" where
  "py_norm PyNone = PyNone"
| "py_norm (PyBool b) = PyFloat (if b then 1 else 0)"
| "py_norm (PyInt n) = PyFloat (of_int n)"
| "py_norm (PyFloat r) = PyFloat r"
| "py_norm (PyStr s) = PyStr s"
| "py_norm (PyDatetime d) = PyDatetime d"
| "py_norm (PyDate d) = PyDate d"
| "py_norm (PyCode v) = PyCode (py_norm v)"
| "py_norm (PyRef v) = PyRef (py_norm v)"
| "py_norm (PyRecordset j) = PyRecordset j"

definition py_eq :: "pyval \<Rightarrow> pyval \<Rightarrow> bool" where
  "py_eq a b = (py_norm a = py_norm b)"

text \<open>
  Every \<^verbatim>\<open>raise\<close>, failed \<^verbatim>\<open>assert\<close> and failing builtin of the source is a value.
  The \<^verbatim>\<open>UserError\<close>s of \<^verbatim>\<open>create_moves_from_pivot\<close> keep the numbers their
  messages are formatted with: \<open>Not_balanced n b\<close> is "The journal entry that ends on
  line n is not balanced (balance is b)", \<open>Not_balanced_last b\<close> is the message about
  the last line.  \<open>UserError\<close> carries the message of an error raised by an external
  collaborator.
\<close>

datatype error =
    AssertionError string
  | KeyError string
  | TypeError
  | ValueError
  | AttributeError
  | IndexError
  | UserError string
  | Missing_label int
  | Missing_date int
  | Bad_credit int pyval
  | Bad_debit int pyval
  | Not_balanced int real
  | Not_balanced_last real

text \<open>
  Modelled from the spec: \<^verbatim>\<open>float_is_zero\<close> is imported from \<^verbatim>\<open>odoo.tools\<close> and
  is not part of this repository.  The spec gives its test: "zero within precision" means
  \<open>|balance| < precision/2\<close>.  The library takes the precision under one of two
  keywords: \<^verbatim>\<open>precision_rounding\<close> is the rounding unit itself (0.01),
  \<^verbatim>\<open>precision_digits\<close> is a number of decimal digits \<open>d\<close>, which stands for the
  unit \<open>10 ** -d\<close>.  A rounding unit is positive (the library asserts it).
\<close>

datatype precision = Precision_digits real | Precision_rounding real

fun float_check_precision :: "precision \<Rightarrow> real" where
  "float_check_precision (Precision_digits d) = 10 powr (- d)"
| "float_check_precision (Precision_rounding r) = r"

definition float_is_zero :: "real \<Rightarrow> precision \<Rightarrow> bool" where
  "float_is_zero v p = (\<bar>v\<bar> < float_check_precision p / 2)"

section \<open>The entry assembler: \<^verbatim>\<open>create_moves_from_pivot\<close>\<close>

subsection \<open>Lines after the checks, and the values of a journal entry\<close>

text \<open>
  The first loop of \<^verbatim>\<open>create_moves_from_pivot\<close> leaves every pivot line with an
  integer \<^verbatim>\<open>line\<close>, the ids \<^verbatim>\<open>account_id\<close> and \<^verbatim>\<open>journal_id\<close>, a true
  \<^verbatim>\<open>name\<close> and \<^verbatim>\<open>date\<close> and float \<^verbatim>\<open>credit\<close> and \<^verbatim>\<open>debit\<close>, or raises.
  A line that passed is a record of these.  \<open>vl_partner_id\<close> and
  \<open>vl_analytic_account_id\<close> are what \<^verbatim>\<open>l.get('partner_id')\<close> and
  \<^verbatim>\<open>l.get('analytic_account_id')\<close> give (\<^verbatim>\<open>None\<close> when nothing was matched);
  \<^verbatim>\<open>ref\<close> and \<^verbatim>\<open>reconcile_ref\<close> may still be absent keys (\<open>None\<close>).
\<close>

record vline =
  vl_line :: int
  vl_journal_id :: int
  vl_account_id :: int
  vl_partner_id :: pyval
  vl_analytic_account_id :: pyval
  vl_name :: pyval
  vl_date :: pyval
  vl_ref :: "pyval option"
  vl_credit :: real
  vl_debit :: real
  vl_reconcile_ref :: "pyval option"

text \<open>\<^verbatim>\<open>d.get(k)\<close> is \<^verbatim>\<open>None\<close> for an absent key, \<^verbatim>\<open>d.get(k, False)\<close> is \<^verbatim>\<open>False\<close>.\<close>

definition get_or_none :: "pyval option \<Rightarrow> pyval" where
  "get_or_none v = (case v of None \<Rightarrow> PyNone | Some x \<Rightarrow> x)"

definition get_or_false :: "pyval option \<Rightarrow> pyval" where
  "get_or_false v = (case v of None \<Rightarrow> PyBool False | Some x \<Rightarrow> x)"

record move_line_vals =
  ml_credit :: real
  ml_debit :: real
  ml_name :: pyval
  ml_partner_id :: pyval
  ml_account_id :: int
  ml_analytic_account_id :: pyval
  ml_import_reconcile :: pyval

record move_vals =
  mv_journal_id :: int
  mv_ref :: pyval
  mv_date :: pyval
  line_ids :: "move_line_vals list"

definition prepare_move_line :: "vline \<Rightarrow> move_line_vals" where
  "prepare_move_line pivot_line =
     \<lparr> ml_credit = vl_credit pivot_line,
       ml_debit = vl_debit pivot_line,
       ml_name = vl_name pivot_line,
       ml_partner_id = vl_partner_id pivot_line,
       ml_account_id = vl_account_id pivot_line,
       ml_analytic_account_id = vl_analytic_account_id pivot_line,
       ml_import_reconcile = get_or_none (vl_reconcile_ref pivot_line) \<rparr>"

text \<open>\<^verbatim>\<open>_prepare_move\<close>; the caller adds \<^verbatim>\<open>line_ids\<close> at once, so it starts empty here.\<close>

definition prepare_move :: "vline \<Rightarrow> move_vals" where
  "prepare_move pivot_line =
     \<lparr> mv_journal_id = vl_journal_id pivot_line,
       mv_ref = get_or_none (vl_ref pivot_line),
       mv_date = vl_date pivot_line,
       line_ids = [] \<rparr>"

subsection \<open>The grouping scan (\<^verbatim>\<open># EXTRACT MOVES\<close>)\<close>

text \<open>
  The local variables of the second loop.  \<open>cur_move = None\<close> is the empty dictionary
  \<^verbatim>\<open>{}\<close> the loop starts with (false under \<^verbatim>\<open>if cur_move\<close>).
\<close>

record scan =
  moves :: "move_vals list"
  cur_journal_id :: pyval
  cur_ref :: pyval
  cur_date :: pyval
  cur_balance :: real
  cur_move :: "move_vals option"

definition init_scan :: scan where
  "init_scan =
     \<lparr> moves = [],
       cur_journal_id = PyBool False,
       cur_ref = PyBool False,
       cur_date = PyBool False,
       cur_balance = 0,
       cur_move = None \<rparr>"

text \<open>The condition of the \<^verbatim>\<open>if\<close> that decides between appending and a new move.\<close>

definition same_move :: "real \<Rightarrow> scan \<Rightarrow> vline \<Rightarrow> bool" where
  "same_move prec st l =
     (py_eq (cur_ref st) (get_or_false (vl_ref l)) \<and>
      py_eq (cur_journal_id st) (PyInt (vl_journal_id l)) \<and>
      py_eq (cur_date st) (vl_date l) \<and>
      \<not> float_is_zero (cur_balance st) (Precision_rounding prec))"

text \<open>
  The addition and the subtraction of floats, each a function of its two operands that
  returns the float nearest to the exact result.  They are parameters of the scan.
\<close>

record float_ops =
  fl_add :: "real \<Rightarrow> real \<Rightarrow> real"
  fl_sub :: "real \<Rightarrow> real \<Rightarrow> real"

text \<open>
  One turn of the loop.  \<^verbatim>\<open>cur_balance += l['credit'] - l['debit']\<close> is the last
  statement of the body, after either branch.
\<close>

definition new_move :: "scan \<Rightarrow> vline \<Rightarrow> scan" where
  "new_move st l =
     st\<lparr> cur_move := Some ((prepare_move l)\<lparr> line_ids := [prepare_move_line l] \<rparr>),
         cur_date := vl_date l,
         cur_ref := get_or_false (vl_ref l),
         cur_journal_id := PyInt (vl_journal_id l) \<rparr>"

definition add_balance :: "float_ops \<Rightarrow> vline \<Rightarrow> scan \<Rightarrow> scan" where
  "add_balance fp l st =
     st\<lparr> cur_balance := fl_add fp (cur_balance st) (fl_sub fp (vl_credit l) (vl_debit l)) \<rparr>"

definition extract_step :: "float_ops \<Rightarrow> real \<Rightarrow> scan \<Rightarrow> vline \<Rightarrow> error + scan" where
  "extract_step fp prec st l =
     (if same_move prec st l then
        (case cur_move st of
           None \<Rightarrow> Inl (KeyError ''line_ids'')
         | Some m \<Rightarrow>
             Inr (add_balance fp l
                   (st\<lparr> cur_move := Some (m\<lparr> line_ids := line_ids m @ [prepare_move_line l] \<rparr>) \<rparr>)))
      else if moves st \<noteq> [] \<and> \<not> float_is_zero (cur_balance st) (Precision_rounding prec) then
        Inl (Not_balanced (vl_line l - 1) (cur_balance st))
      else
        (case cur_move st of
           None \<Rightarrow> Inr (add_balance fp l (new_move st l))
         | Some m \<Rightarrow>
             if 1 < length (line_ids m)
             then Inr (add_balance fp l (new_move (st\<lparr> moves := moves st @ [m] \<rparr>) l))
             else Inl (AssertionError ''move should have more than 1 line'')))"

fun extract_loop :: "float_ops \<Rightarrow> real \<Rightarrow> scan \<Rightarrow> vline list \<Rightarrow> error + scan" where
  "extract_loop fp prec st [] = Inr st"
| "extract_loop fp prec st (l # ls) =
     (case extract_step fp prec st l of
        Inl e \<Rightarrow> Inl e
      | Inr st' \<Rightarrow> extract_loop fp prec st' ls)"

text \<open>After the loop: the open move is added, then the last balance is tested.\<close>

definition extract_moves :: "float_ops \<Rightarrow> real \<Rightarrow> vline list \<Rightarrow> error + move_vals list" where
  "extract_moves fp prec pivot =
     (case extract_loop fp prec init_scan pivot of
        Inl e \<Rightarrow> Inl e
      | Inr st \<Rightarrow>
          (let moves' = (case cur_move st of None \<Rightarrow> moves st | Some m \<Rightarrow> moves st @ [m])
           in if \<not> float_is_zero (cur_balance st) (Precision_rounding prec)
              then Inl (Not_balanced_last (cur_balance st))
              else Inr moves'))"

subsection \<open>External calls\<close>

text \<open>
  A pivot line is a dictionary from the keys of the \<^verbatim>\<open>PIVOT FORMAT\<close> comment to
  values.  \<^verbatim>\<open>l[k]\<close> raises \<^verbatim>\<open>KeyError\<close> on an absent key, \<^verbatim>\<open>l.get(k)\<close> gives
  \<^verbatim>\<open>None\<close>.
\<close>

type_synonym pivot_line = "string \<rightharpoonup> pyval"

definition getitem :: "pivot_line \<Rightarrow> string \<Rightarrow> error + pyval" where
  "getitem l k = (case l k of None \<Rightarrow> Inl (KeyError k) | Some v \<Rightarrow> Inr v)"

definition get :: "pivot_line \<Rightarrow> string \<Rightarrow> pyval" where
  "get l k = get_or_none (l k)"

text \<open>
  The calls that leave the wizard are recorded in the order in which they are issued:
  the four matchers of \<^verbatim>\<open>business.document.import\<close> (with the line number of their
  error prefix and the dictionary they are given), \<^verbatim>\<open>account.move.create\<close> and
  \<^verbatim>\<open>post\<close>.  A computation takes the calls issued so far and returns them extended,
  with its result or the error it raised.  The list \<^verbatim>\<open>chatter_msg\<close> that the matchers
  fill is never read by the wizard and is left out.
\<close>

datatype call =
    Match_account int pyval
  | Match_partner int pyval
  | Match_analytic_account int pyval
  | Match_journal int pyval
  | Create move_vals
  | Post "int list"

type_synonym 'a ext = "call list \<Rightarrow> call list \<times> (error + 'a)"

definition ext_return :: "'a \<Rightarrow> 'a ext" where
  "ext_return x = (\<lambda>calls. (calls, Inr x))"

definition ext_lift :: "error + 'a \<Rightarrow> 'a ext" where
  "ext_lift r = (\<lambda>calls. (calls, r))"

definition ext_call :: "call \<Rightarrow> error + 'a \<Rightarrow> 'a ext" where
  "ext_call c r = (\<lambda>calls. (calls @ [c], r))"

definition ext_bind :: "'a ext \<Rightarrow> ('a \<Rightarrow> 'b ext) \<Rightarrow> 'b ext" where
  "ext_bind m f =
     (\<lambda>calls. case m calls of
        (calls', Inl e) \<Rightarrow> (calls', Inl e)
      | (calls', Inr x) \<Rightarrow> f x calls')"

text \<open>
  The collaborators.  A matcher returns the id of the record it found (for a partner,
  the id of its commercial partner) or raises; \<^verbatim>\<open>create\<close> returns the id of the new
  journal entry or raises; \<^verbatim>\<open>post\<close> returns nothing or raises.
\<close>

record resolver =
  match_account :: "int \<Rightarrow> pyval \<Rightarrow> error + int"
  match_partner :: "int \<Rightarrow> pyval \<Rightarrow> error + int"
  match_analytic_account :: "int \<Rightarrow> pyval \<Rightarrow> error + int"
  match_journal :: "int \<Rightarrow> pyval \<Rightarrow> error + int"

record ledger =
  create :: "move_vals \<Rightarrow> error + int"
  post :: "int list \<Rightarrow> error + unit"

subsection \<open>The checks (\<^verbatim>\<open># MATCH what needs to be matched... + CHECKS\<close>)\<close>

text \<open>
  \<^verbatim>\<open>assert l.get('line') and isinstance(l.get('line'), int)\<close>; a \<^verbatim>\<open>bool\<close> is an
  \<^verbatim>\<open>int\<close> in Python, and \<^verbatim>\<open>'%d' % True\<close> is 1.
\<close>

definition line_number :: "pivot_line \<Rightarrow> error + int" where
  "line_number l =
     (case get l ''line'' of
        PyInt n \<Rightarrow> if n \<noteq> 0 then Inr n else Inl (AssertionError ''missing line number'')
      | PyBool b \<Rightarrow> if b then Inr 1 else Inl (AssertionError ''missing line number'')
      | _ \<Rightarrow> Inl (AssertionError ''missing line number''))"

text \<open>\<^verbatim>\<open>isinstance(l.get(k), float)\<close>, and the error whose message formats \<^verbatim>\<open>l[k]\<close>.\<close>

definition float_item :: "(int \<Rightarrow> pyval \<Rightarrow> error) \<Rightarrow> int \<Rightarrow> pivot_line \<Rightarrow> string \<Rightarrow> error + real" where
  "float_item bad n l k =
     (case l k of
        Some (PyFloat r) \<Rightarrow> Inr r
      | Some v \<Rightarrow> Inl (bad n v)
      | None \<Rightarrow> Inl (KeyError k))"

text \<open>
  An optional reference: matched when \<^verbatim>\<open>l.get(k)\<close> is true.  The result is what
  \<^verbatim>\<open>l.get(k_id)\<close> gives afterwards.
\<close>

definition match_optional ::
  "(pyval \<Rightarrow> call) \<Rightarrow> (pyval \<Rightarrow> error + int) \<Rightarrow> pivot_line \<Rightarrow> string \<Rightarrow> string \<Rightarrow> pyval ext"
where
  "match_optional c f l k k_id =
     (if truthy (get l k)
      then ext_bind (ext_call (c (get l k)) (f (get l k))) (\<lambda>i. ext_return (PyInt i))
      else ext_return (get l k_id))"

text \<open>The body of the first loop, for one line.\<close>

definition check_line :: "resolver \<Rightarrow> pivot_line \<Rightarrow> vline ext" where
  "check_line bdio l =
     ext_bind (ext_lift (line_number l)) (\<lambda>n.
     ext_bind (ext_lift (getitem l ''account'')) (\<lambda>a.
     ext_bind (ext_call (Match_account n a) (match_account bdio n a)) (\<lambda>account_id.
     ext_bind (match_optional (Match_partner n) (match_partner bdio n) l
                 ''partner'' ''partner_id'') (\<lambda>partner_id.
     ext_bind (match_optional (Match_analytic_account n) (match_analytic_account bdio n) l
                 ''analytic'' ''analytic_account_id'') (\<lambda>analytic_account_id.
     ext_bind (ext_lift (getitem l ''journal'')) (\<lambda>j.
     ext_bind (ext_call (Match_journal n j) (match_journal bdio n j)) (\<lambda>journal_id.
     if \<not> truthy (get l ''name'') then ext_lift (Inl (Missing_label n))
     else if \<not> truthy (get l ''date'') then ext_lift (Inl (Missing_date n))
     else
       ext_bind (ext_lift (float_item Bad_credit n l ''credit'')) (\<lambda>credit.
       ext_bind (ext_lift (float_item Bad_debit n l ''debit'')) (\<lambda>debit.
       ext_return
         \<lparr> vl_line = n,
           vl_journal_id = journal_id,
           vl_account_id = account_id,
           vl_partner_id = partner_id,
           vl_analytic_account_id = analytic_account_id,
           vl_name = get l ''name'',
           vl_date = get l ''date'',
           vl_ref = l ''ref'',
           vl_credit = credit,
           vl_debit = debit,
           vl_reconcile_ref = l ''reconcile_ref'' \<rparr>)))))))))"

text \<open>The first loop: every line in turn, stopping at the first error.\<close>

fun check_lines :: "resolver \<Rightarrow> pivot_line list \<Rightarrow> vline list ext" where
  "check_lines bdio [] = ext_return []"
| "check_lines bdio (l # ls) =
     ext_bind (check_line bdio l) (\<lambda>v.
     ext_bind (check_lines bdio ls) (\<lambda>vs.
     ext_return (v # vs)))"

subsection \<open>Creation, and the whole of \<^verbatim>\<open>create_moves_from_pivot\<close>\<close>

text \<open>\<^verbatim>\<open>for move in moves: rmoves += amo.create(move)\<close>\<close>

fun create_all :: "ledger \<Rightarrow> move_vals list \<Rightarrow> int list ext" where
  "create_all amo [] = ext_return []"
| "create_all amo (m # ms) =
     ext_bind (ext_call (Create m) (create amo m)) (\<lambda>i.
     ext_bind (create_all amo ms) (\<lambda>ids.
     ext_return (i # ids)))"

definition create_moves_from_pivot ::
  "resolver \<Rightarrow> ledger \<Rightarrow> float_ops \<Rightarrow> real \<Rightarrow> pivot_line list \<Rightarrow> bool \<Rightarrow>
     call list \<times> (error + int list)"
where
  "create_moves_from_pivot bdio amo fp prec pivot post_move =
     ext_bind (check_lines bdio pivot) (\<lambda>checked.
     ext_bind (ext_lift (extract_moves fp prec checked)) (\<lambda>moves.
     ext_bind (create_all amo moves) (\<lambda>rmoves.
     if post_move
     then ext_bind (ext_call (Post rmoves) (post amo rmoves)) (\<lambda>u. ext_return rmoves)
     else ext_return rmoves))) []"

subsection \<open>Observations on the scan\<close>

text \<open>
  The open entry of a state reached by the scan is never empty; before the first line
  there is no open entry and the balance is zero.
\<close>

definition open_nonempty :: "real \<Rightarrow> scan \<Rightarrow> bool" where
  "open_nonempty prec st =
     (case cur_move st of
        None \<Rightarrow> float_is_zero (cur_balance st) (Precision_rounding prec)
      | Some m \<Rightarrow> line_ids m \<noteq> [])"

text \<open>
  What a turn of the loop did with line \<open>l\<close>: it appended \<open>l\<close> to the open entry and
  sealed nothing, or it sealed the open entry (if any) and opened a new one that holds
  exactly \<open>l\<close>.
\<close>

definition appended_to_current :: "scan \<Rightarrow> vline \<Rightarrow> error + scan \<Rightarrow> bool" where
  "appended_to_current st l r =
     (case (cur_move st, r) of
        (Some m, Inr st') \<Rightarrow>
           moves st' = moves st \<and>
           cur_move st' = Some (m\<lparr> line_ids := line_ids m @ [prepare_move_line l] \<rparr>)
      | _ \<Rightarrow> False)"

definition started_new_move :: "scan \<Rightarrow> vline \<Rightarrow> error + scan \<Rightarrow> bool" where
  "started_new_move st l r =
     (case r of
        Inr st' \<Rightarrow>
          cur_move st' = Some ((prepare_move l)\<lparr> line_ids := [prepare_move_line l] \<rparr>) \<and>
          moves st' = (case cur_move st of None \<Rightarrow> moves st | Some m \<Rightarrow> moves st @ [m])
      | Inl e \<Rightarrow> False)"

text \<open>
  The group key of a checked line, in the words of the specification: journal,
  reference and date.  Two keys are equal when the journals are the same and the
  references and the dates are equal for Python's \<^verbatim>\<open>==\<close>, an absent reference
  standing for \<^verbatim>\<open>False\<close>.
\<close>

definition line_ref :: "vline \<Rightarrow> pyval" where
  "line_ref l = (case vl_ref l of None \<Rightarrow> PyBool False | Some r \<Rightarrow> r)"

definition same_key :: "vline \<Rightarrow> vline \<Rightarrow> bool" where
  "same_key a b =
     (vl_journal_id a = vl_journal_id b \<and> py_eq (line_ref a) (line_ref b) \<and>
      py_eq (vl_date a) (vl_date b))"

text \<open>
  A key of text: the reference is absent or a string, the date is a string or a date.
  For such keys \<^verbatim>\<open>==\<close> is equality.
\<close>

definition text_key :: "vline \<Rightarrow> bool" where
  "text_key l =
     ((case vl_ref l of
         None \<Rightarrow> True
       | Some r \<Rightarrow> (case r of PyStr s \<Rightarrow> True | _ \<Rightarrow> False)) \<and>
      (case vl_date l of PyStr s \<Rightarrow> True | PyDate d \<Rightarrow> True | _ \<Rightarrow> False))"

text \<open>
  The open entry was opened by line \<open>l0\<close> and holds \<open>l0\<close> followed by the lines
  \<open>rest\<close>; the current key is the key of \<open>l0\<close>.
\<close>

definition opened_by :: "vline \<Rightarrow> vline list \<Rightarrow> scan \<Rightarrow> bool" where
  "opened_by l0 rest st =
     (cur_move st = Some ((prepare_move l0)\<lparr> line_ids := map prepare_move_line (l0 # rest) \<rparr>) \<and>
      cur_ref st = line_ref l0 \<and>
      cur_journal_id st = PyInt (vl_journal_id l0) \<and>
      cur_date st = vl_date l0)"

definition is_creation :: "call \<Rightarrow> bool" where
  "is_creation c = (case c of Create m \<Rightarrow> True | Post ids \<Rightarrow> True | _ \<Rightarrow> False)"

text \<open>\<open>m\<close> issues no creation call: the creation calls after it are those before it.\<close>

definition creation_free :: "'a ext \<Rightarrow> bool" where
  "creation_free m =
     (\<forall>calls. \<exists>cs. fst (m calls) = calls @ cs \<and> filter is_creation cs = [])"

text \<open>Balance of an entry: \<open>\<Sum>(credit - debit)\<close> over its lines.\<close>

definition move_balance :: "move_vals \<Rightarrow> real" where
  "move_balance m = (\<Sum>x\<leftarrow>line_ids m. ml_credit x - ml_debit x)"

text \<open>
  Example operations: the exact sum and difference.  They are the float operations
  wherever the exact result is itself a float, as it is for the amounts of the examples
  (integers below 1000 and multiples of 1/1024).
\<close>

definition exact_floats :: float_ops where
  "exact_floats = \<lparr> fl_add = (+), fl_sub = (-) \<rparr>"

text \<open>
  Example input: a checked line numbered \<open>n\<close> of journal \<open>j\<close> with the given credit and
  debit, dated 2017-02-15, without reference, partner or analytic account.
\<close>

definition checked_line :: "int \<Rightarrow> int \<Rightarrow> real \<Rightarrow> real \<Rightarrow> vline" where
  "checked_line n j c d =
     \<lparr> vl_line = n, vl_journal_id = j, vl_account_id = 7, vl_partner_id = PyNone,
       vl_analytic_account_id = PyNone, vl_name = PyStr ''label'',
       vl_date = PyStr ''2017-02-15'', vl_ref = None, vl_credit = c, vl_debit = d,
       vl_reconcile_ref = None \<rparr>"

text \<open>
  Example collaborators: a chart with the accounts 411000 and 707000 and the journal VT,
  no partner and no analytic account; a ledger that accepts every entry.
\<close>

definition example_resolver :: resolver where
  "example_resolver =
     \<lparr> match_account = (\<lambda>n v.
         if v = PyCode (PyStr ''411000'') then Inr 7
         else if v = PyCode (PyStr ''707000'') then Inr 8
         else Inl (UserError ''account not found'')),
       match_partner = (\<lambda>n v. Inl (UserError ''partner not found'')),
       match_analytic_account = (\<lambda>n v. Inl (UserError ''analytic account not found'')),
       match_journal = (\<lambda>n v.
         if v = PyCode (PyStr ''VT'') then Inr 1
         else Inl (UserError ''journal not found'')) \<rparr>"

definition example_ledger :: ledger where
  "example_ledger = \<lparr> create = (\<lambda>m. Inr 1), post = (\<lambda>ids. Inr ()) \<rparr>"

text \<open>Example input: a pivot line of journal VT, as \<^verbatim>\<open>update_pivot\<close> leaves it.\<close>

definition example_pivot_line :: "int \<Rightarrow> string \<Rightarrow> string \<Rightarrow> real \<Rightarrow> real \<Rightarrow> pivot_line" where
  "example_pivot_line n account label c d =
     [''line'' \<mapsto> PyInt n,
      ''account'' \<mapsto> PyCode (PyStr account),
      ''journal'' \<mapsto> PyCode (PyStr ''VT''),
      ''name'' \<mapsto> PyStr label,
      ''date'' \<mapsto> PyStr ''2017-02-15'',
      ''credit'' \<mapsto> PyFloat c,
      ''debit'' \<mapsto> PyFloat d]"

section \<open>The reconciliation matcher: \<^verbatim>\<open>reconcile_move_lines\<close>\<close>

text \<open>
  The records the matcher reads: an account with its code, display name and the flag
  "Allow Reconciliation", and a created journal item (\<^verbatim>\<open>account.move.line\<close>).
  \<open>import_reconcile = None\<close> is the value \<^verbatim>\<open>False\<close> of an unset mark;
  \<open>partner_id = None\<close> is the empty recordset.
\<close>

record account =
  account_id :: int
  code :: string
  display_name :: string
  reconcile :: bool

record move_line =
  line_id :: int
  import_reconcile :: "string option"
  credit :: real
  debit :: real
  line_account :: account
  partner_id :: "int option"

text \<open>
  What the matcher does for a mark: one of its five warnings, or the call
  \<^verbatim>\<open>lines_to_rec.reconcile()\<close>.
\<close>

datatype decision =
    Skip_one_line string
  | Skip_not_balanced string real
  | Skip_accounts string string
  | Skip_not_allowed string string
  | Skip_partners string string
  | Reconcile string "move_line list"

text \<open>
  The search \<^verbatim>\<open>[('move_id', 'in', moves.ids), ('import_reconcile', '!=', False)]\<close>,
  on the lines of the created entries.
\<close>

definition search_marked :: "move_line list \<Rightarrow> move_line list" where
  "search_marked lines = filter (\<lambda>line. import_reconcile line \<noteq> None) lines"

text \<open>
  The dictionary \<^verbatim>\<open>torec\<close>, in insertion order: a mark already present gets the
  line added to its recordset, a new mark is added at the end.
\<close>

fun torec_add :: "string \<Rightarrow> move_line \<Rightarrow> (string \<times> move_line list) list \<Rightarrow> (string \<times> move_line list) list"
where
  "torec_add k line [] = [(k, [line])]"
| "torec_add k line ((k', ls) # rest) =
     (if k = k' then (k', ls @ [line]) # rest else (k', ls) # torec_add k line rest)"

fun group_lines :: "(string \<times> move_line list) list \<Rightarrow> move_line list \<Rightarrow> (string \<times> move_line list) list"
where
  "group_lines torec [] = torec"
| "group_lines torec (line # lines) =
     (case import_reconcile line of
        None \<Rightarrow> group_lines torec lines
      | Some k \<Rightarrow> group_lines (torec_add k line torec) lines)"

text \<open>The keys of a dictionary filled by \<^verbatim>\<open>d[k] = True\<close> for each \<open>k\<close> in turn.\<close>

definition dict_keys :: "'a list \<Rightarrow> 'a list" where
  "dict_keys ks = rev (remdups (rev ks))"

text \<open>\<^verbatim>\<open>line.partner_id.id or False\<close>\<close>

definition partner_key :: "move_line \<Rightarrow> pyval" where
  "partner_key line =
     (case partner_id line of
        None \<Rightarrow> PyBool False
      | Some i \<Rightarrow> py_or (PyInt i) (PyBool False))"

text \<open>\<^verbatim>\<open>sep.join(items)\<close>: every item must be a string.\<close>

fun join_strings :: "string \<Rightarrow> string list \<Rightarrow> string" where
  "join_strings sep [] = []"
| "join_strings sep [s] = s"
| "join_strings sep (s # t # ss) = s @ sep @ join_strings sep (t # ss)"

fun str_items :: "pyval list \<Rightarrow> error + string list" where
  "str_items [] = Inr []"
| "str_items (PyStr s # vs) =
     (case str_items vs of Inl e \<Rightarrow> Inl e | Inr ss \<Rightarrow> Inr (s # ss))"
| "str_items (v # vs) = Inl TypeError"

definition py_join :: "string \<Rightarrow> pyval list \<Rightarrow> error + string" where
  "py_join sep items =
     (case str_items items of Inl e \<Rightarrow> Inl e | Inr ss \<Rightarrow> Inr (join_strings sep ss))"

text \<open>
  The body of the loop over \<^verbatim>\<open>torec.items()\<close>.  The arguments of a
  \<^verbatim>\<open>logger.warning\<close> call are evaluated before the call, so a failing \<^verbatim>\<open>join\<close>
  raises.  \<open>rec\<close> is the external \<^verbatim>\<open>reconcile()\<close> of the ledger.
\<close>

definition reconcile_ref ::
  "(move_line list \<Rightarrow> error + unit) \<Rightarrow> real \<Rightarrow> string \<Rightarrow> move_line list \<Rightarrow> error + decision"
where
  "reconcile_ref rec prec rec_ref lines_to_rec =
     (if length lines_to_rec < 2 then Inr (Skip_one_line rec_ref)
      else
        let total = (\<Sum>line\<leftarrow>lines_to_rec. credit line - debit line);
            accounts = dict_keys (map line_account lines_to_rec);
            partners = dict_keys (map partner_key lines_to_rec)
        in
          if \<not> float_is_zero total (Precision_digits prec) then
            Inr (Skip_not_balanced rec_ref total)
          else if 1 < length accounts then
            Inr (Skip_accounts rec_ref (join_strings '', '' (map code accounts)))
          else
            (case accounts of
               [] \<Rightarrow> Inl IndexError
             | acc # others \<Rightarrow>
                 if \<not> reconcile acc then Inr (Skip_not_allowed rec_ref (display_name acc))
                 else if 1 < length partners then
                   (case py_join '', '' partners of
                      Inl e \<Rightarrow> Inl e
                    | Inr ids \<Rightarrow> Inr (Skip_partners rec_ref ids))
                 else
                   (case rec lines_to_rec of
                      Inl e \<Rightarrow> Inl e
                    | Inr u \<Rightarrow> Inr (Reconcile rec_ref lines_to_rec))))"

text \<open>
  The loop: the decisions taken so far, and the error that ended the loop if one was
  raised.
\<close>

fun reconcile_groups ::
  "(move_line list \<Rightarrow> error + unit) \<Rightarrow> real \<Rightarrow> (string \<times> move_line list) list \<Rightarrow>
     decision list \<times> error option"
where
  "reconcile_groups rec prec [] = ([], None)"
| "reconcile_groups rec prec ((rec_ref, lines_to_rec) # rest) =
     (case reconcile_ref rec prec rec_ref lines_to_rec of
        Inl e \<Rightarrow> ([], Some e)
      | Inr d \<Rightarrow>
          (case reconcile_groups rec prec rest of (ds, r) \<Rightarrow> (d # ds, r)))"

definition reconcile_move_lines ::
  "(move_line list \<Rightarrow> error + unit) \<Rightarrow> real \<Rightarrow> move_line list \<Rightarrow> decision list \<times> error option"
where
  "reconcile_move_lines rec prec created =
     reconcile_groups rec prec (group_lines [] (search_marked created))"

text \<open>
  Example input: a created line marked \<^verbatim>\<open>A1242\<close> on the receivable account 411000,
  which allows reconciliation, with the given credit, debit and partner.
\<close>

definition example_move_line :: "int \<Rightarrow> real \<Rightarrow> real \<Rightarrow> int option \<Rightarrow> move_line" where
  "example_move_line i c d p =
     \<lparr> line_id = i, import_reconcile = Some ''A1242'', credit = c, debit = d,
       line_account = \<lparr> account_id = 7, code = ''411000'',
                        display_name = ''411000 Customers'', reconcile = True \<rparr>,
       partner_id = p \<rparr>"

section \<open>The format decoders\<close>

subsection \<open>Builtins and library functions the decoders call\<close>

text \<open>
  The decoders parse numbers with the builtins \<^verbatim>\<open>float\<close> and \<^verbatim>\<open>int\<close>, dates with
  \<^verbatim>\<open>datetime.strptime\<close>, and the Payfit decoder prints cells with \<^verbatim>\<open>str\<close>.  They
  are parameters of the model: a function either returns a value or raises.
  \<open>py_str\<close> is \<^verbatim>\<open>str\<close> on a value that is not a string.
\<close>

record pylib =
  py_float :: "string \<Rightarrow> error + real"
  py_int :: "string \<Rightarrow> error + int"
  strptime :: "string \<Rightarrow> string \<Rightarrow> error + pydate"
  py_str :: "pyval \<Rightarrow> string"

text \<open>\<^verbatim>\<open>float(x)\<close> on any value: a number converts to itself, a string is parsed.\<close>

definition float_of :: "pylib \<Rightarrow> pyval \<Rightarrow> error + real" where
  "float_of lib v =
     (case v of
        PyStr s \<Rightarrow> py_float lib s
      | PyFloat r \<Rightarrow> Inr r
      | PyInt n \<Rightarrow> Inr (of_int n)
      | PyBool b \<Rightarrow> Inr (if b then 1 else 0)
      | _ \<Rightarrow> Inl TypeError)"

text \<open>\<^verbatim>\<open>float(x.replace(',', '.'))\<close>: \<^verbatim>\<open>replace\<close> is a method of strings only.\<close>

definition replace_char :: "char \<Rightarrow> char \<Rightarrow> string \<Rightarrow> string" where
  "replace_char a b s = map (\<lambda>c. if c = a then b else c) s"

definition float_comma :: "pylib \<Rightarrow> pyval \<Rightarrow> error + real" where
  "float_comma lib v =
     (case v of
        PyStr s \<Rightarrow> py_float lib (replace_char (CHR '','') (CHR ''.'') s)
      | _ \<Rightarrow> Inl AttributeError)"

text \<open>\<^verbatim>\<open>datetime.strptime(x, fmt)\<close>: the first argument must be a string.\<close>

definition strptime_of :: "pylib \<Rightarrow> pyval \<Rightarrow> string \<Rightarrow> error + pyval" where
  "strptime_of lib v fmt =
     (case v of
        PyStr s \<Rightarrow> (case strptime lib s fmt of Inl e \<Rightarrow> Inl e | Inr d \<Rightarrow> Inr (PyDatetime d))
      | _ \<Rightarrow> Inl TypeError)"

definition str_of :: "pylib \<Rightarrow> pyval \<Rightarrow> string" where
  "str_of lib v = (case v of PyStr s \<Rightarrow> s | _ \<Rightarrow> py_str lib v)"

text \<open>\<^verbatim>\<open>s[a:b]\<close> for \<open>0 \<le> a \<le> b\<close>, and \<^verbatim>\<open>s.split(c)\<close> for a character \<open>c\<close>.\<close>

definition slice :: "nat \<Rightarrow> nat \<Rightarrow> string \<Rightarrow> string" where
  "slice a b s = take (b - a) (drop a s)"

fun split_on :: "char \<Rightarrow> string \<Rightarrow> string list" where
  "split_on c [] = [[]]"
| "split_on c (x # xs) =
     (if x = c then [] # split_on c xs
      else (case split_on c xs of
              [] \<Rightarrow> [[x]]
            | w # ws \<Rightarrow> (x # w) # ws))"

text \<open>\<^verbatim>\<open>x == 'C' and amount or other\<close>\<close>

definition sign_amount :: "pyval \<Rightarrow> string \<Rightarrow> real \<Rightarrow> pyval \<Rightarrow> pyval" where
  "sign_amount sign letter amount other =
     py_or (py_and (PyBool (py_eq sign (PyStr letter))) (PyFloat amount)) other"

subsection \<open>Rows of a delimited file\<close>

text \<open>
  \<^verbatim>\<open>unicodecsv.DictReader\<close> with explicit \<^verbatim>\<open>fieldnames\<close>.  The input of the model
  is the list of records the underlying \<^verbatim>\<open>reader\<close> yields, each a list of strings.
  Empty records are skipped; a record is zipped with the field names, a later field of
  the same name overriding an earlier one; the fields a short record lacks are
  \<^verbatim>\<open>None\<close>.  (The surplus of a long record, stored under the key \<^verbatim>\<open>None\<close>, is never
  read and is left out.)  A field name is a string or \<^verbatim>\<open>False\<close>.
\<close>

type_synonym csv_row = "pyval \<rightharpoonup> pyval"

definition dict_reader_row :: "pyval list \<Rightarrow> string list \<Rightarrow> csv_row" where
  "dict_reader_row fieldnames row =
     map_of (rev (zip fieldnames (map PyStr row) @
                  map (\<lambda>k. (k, PyNone)) (drop (length row) fieldnames)))"

definition dict_reader :: "pyval list \<Rightarrow> string list list \<Rightarrow> csv_row list" where
  "dict_reader fieldnames rows = map (dict_reader_row fieldnames) (filter (\<lambda>row. row \<noteq> []) rows)"

definition item :: "csv_row \<Rightarrow> string \<Rightarrow> error + pyval" where
  "item l k = (case l (PyStr k) of None \<Rightarrow> Inl (KeyError k) | Some v \<Rightarrow> Inr v)"

definition item_get :: "csv_row \<Rightarrow> string \<Rightarrow> pyval" where
  "item_get l k = get_or_none (l (PyStr k))"

text \<open>Sequencing of computations that may raise.\<close>

definition err_bind :: "error + 'a \<Rightarrow> ('a \<Rightarrow> error + 'b) \<Rightarrow> error + 'b" where
  "err_bind m f = (case m of Inl e \<Rightarrow> Inl e | Inr x \<Rightarrow> f x)"

text \<open>
  The loop shared by the decoders: \<^verbatim>\<open>i\<close> counts every row, a row is decoded to a
  pivot line that is appended to \<^verbatim>\<open>res\<close>, or skipped (\<open>None\<close>), or raises.
\<close>

fun decode_rows ::
  "(int \<Rightarrow> 'r \<Rightarrow> error + pivot_line option) \<Rightarrow> int \<Rightarrow> 'r list \<Rightarrow> error + pivot_line list"
where
  "decode_rows f i [] = Inr []"
| "decode_rows f i (l # ls) =
     err_bind (f (i + 1) l) (\<lambda>vals.
     err_bind (decode_rows f (i + 1) ls) (\<lambda>res.
     Inr (case vals of None \<Rightarrow> res | Some v \<Rightarrow> v # res)))"

subsection \<open>Quadra\<close>

definition quadra_row :: "pylib \<Rightarrow> int \<Rightarrow> string \<Rightarrow> error + pivot_line option" where
  "quadra_row lib i l =
     (if length l < 54 then Inr None
      else if l ! 0 = CHR ''M'' \<and> (l ! 41 = CHR ''C'' \<or> l ! 41 = CHR ''D'') then
        err_bind (py_int lib (slice 42 55 l)) (\<lambda>amount_cents.
        let amount = real_of_int amount_cents / 100 in
        err_bind (strptime_of lib (PyStr (slice 14 20 l)) ''%d%m%y'') (\<lambda>date.
        Inr (Some
          [''journal'' \<mapsto> PyCode (PyStr (slice 9 11 l)),
           ''account'' \<mapsto> PyCode (PyStr (slice 1 9 l)),
           ''credit'' \<mapsto> sign_amount (PyStr [l ! 41]) ''C'' amount (PyBool False),
           ''debit'' \<mapsto> sign_amount (PyStr [l ! 41]) ''D'' amount (PyBool False),
           ''date'' \<mapsto> date,
           ''name'' \<mapsto> PyStr (slice 21 41 l),
           ''line'' \<mapsto> PyInt i])))
      else Inr None)"

definition quadra2pivot :: "pylib \<Rightarrow> string \<Rightarrow> error + pivot_line list" where
  "quadra2pivot lib file_str = decode_rows (quadra_row lib) 0 (split_on (CHR 0x0A) file_str)"

subsection \<open>In Extenso\<close>

definition extenso_fieldnames :: "pyval list" where
  "extenso_fieldnames =
     [PyStr ''journal'', PyStr ''date'', PyBool False, PyStr ''account'', PyBool False,
      PyBool False, PyBool False, PyBool False, PyStr ''debit'', PyStr ''credit'']"

definition extenso_row :: "pylib \<Rightarrow> int \<Rightarrow> csv_row \<Rightarrow> error + pivot_line option" where
  "extenso_row lib i l =
     err_bind (item l ''credit'') (\<lambda>credit0.
     let credit = py_or credit0 (PyStr ''0'') in
     err_bind (item l ''debit'') (\<lambda>debit0.
     let debit = py_or debit0 (PyStr ''0'') in
     err_bind (item l ''journal'') (\<lambda>journal.
     err_bind (item l ''account'') (\<lambda>account.
     err_bind (float_comma lib credit) (\<lambda>c.
     err_bind (float_comma lib debit) (\<lambda>d.
     err_bind (item l ''date'') (\<lambda>date0.
     err_bind (strptime_of lib date0 ''%d%m%Y'') (\<lambda>date.
     Inr (Some
       [''journal'' \<mapsto> PyCode journal,
        ''account'' \<mapsto> PyCode account,
        ''credit'' \<mapsto> PyFloat c,
        ''debit'' \<mapsto> PyFloat d,
        ''date'' \<mapsto> date,
        ''line'' \<mapsto> PyInt i])))))))))"

definition extenso2pivot :: "pylib \<Rightarrow> string list list \<Rightarrow> error + pivot_line list" where
  "extenso2pivot lib rows = decode_rows (extenso_row lib) 0 (dict_reader extenso_fieldnames rows)"

subsection \<open>Ciel Paye\<close>

definition cielpaye_fieldnames :: "pyval list" where
  "cielpaye_fieldnames =
     [PyBool False, PyStr ''journal'', PyStr ''date'', PyStr ''account'', PyBool False,
      PyStr ''amount'', PyStr ''sign'', PyBool False, PyStr ''name'', PyBool False]"

definition cielpaye_row :: "pylib \<Rightarrow> int \<Rightarrow> csv_row \<Rightarrow> error + pivot_line option" where
  "cielpaye_row lib i l =
     (if truthy (item_get l ''date'') \<and> truthy (item_get l ''name'') \<and> truthy (item_get l ''amount'')
      then
        err_bind (item l ''amount'') (\<lambda>amount0.
        err_bind (float_comma lib amount0) (\<lambda>amount.
        err_bind (item l ''journal'') (\<lambda>journal.
        err_bind (item l ''account'') (\<lambda>account.
        err_bind (item l ''sign'') (\<lambda>sign.
        err_bind (item l ''date'') (\<lambda>date0.
        err_bind (strptime_of lib date0 ''%d/%m/%Y'') (\<lambda>date.
        err_bind (item l ''name'') (\<lambda>name.
        Inr (Some
          [''journal'' \<mapsto> PyCode journal,
           ''account'' \<mapsto> PyCode account,
           ''credit'' \<mapsto> sign_amount sign ''C'' amount (PyInt 0),
           ''debit'' \<mapsto> sign_amount sign ''D'' amount (PyInt 0),
           ''date'' \<mapsto> date,
           ''name'' \<mapsto> name,
           ''line'' \<mapsto> PyInt i])))))))))
      else Inr None)"

definition cielpaye2pivot :: "pylib \<Rightarrow> string list list \<Rightarrow> error + pivot_line list" where
  "cielpaye2pivot lib rows =
     decode_rows (cielpaye_row lib) 0 (dict_reader cielpaye_fieldnames rows)"

subsection \<open>FEC (text)\<close>

definition fectxt_fieldnames :: "pyval list" where
  "fectxt_fieldnames =
     [PyStr ''journal'', PyBool False, PyBool False, PyStr ''date'', PyStr ''account'',
      PyStr ''name'', PyBool False, PyBool False, PyStr ''ref'', PyBool False, PyStr ''name'',
      PyStr ''debit'', PyStr ''credit'', PyStr ''reconcile_ref'', PyBool False, PyBool False,
      PyBool False, PyBool False]"

definition fectxt_row :: "pylib \<Rightarrow> int \<Rightarrow> csv_row \<Rightarrow> error + pivot_line option" where
  "fectxt_row lib i l =
     (if i = 1 then Inr None
      else
        err_bind (item l ''credit'') (\<lambda>credit0.
        let credit = py_or credit0 (PyStr ''0'') in
        err_bind (item l ''debit'') (\<lambda>debit0.
        let debit = py_or debit0 (PyStr ''0'') in
        err_bind (item l ''journal'') (\<lambda>journal.
        err_bind (item l ''account'') (\<lambda>account.
        err_bind (float_comma lib credit) (\<lambda>c.
        err_bind (float_comma lib debit) (\<lambda>d.
        err_bind (item l ''date'') (\<lambda>date0.
        err_bind (strptime_of lib date0 ''%Y%m%d'') (\<lambda>date.
        err_bind (item l ''name'') (\<lambda>name.
        err_bind (item l ''reconcile_ref'') (\<lambda>reconcile_ref.
        Inr (Some
          [''journal'' \<mapsto> PyCode journal,
           ''account'' \<mapsto> PyCode account,
           ''credit'' \<mapsto> PyFloat c,
           ''debit'' \<mapsto> PyFloat d,
           ''date'' \<mapsto> date,
           ''name'' \<mapsto> name,
           ''reconcile_ref'' \<mapsto> reconcile_ref,
           ''line'' \<mapsto> PyInt i]))))))))))))"

text \<open>
  The separator chosen on the wizard (\<^verbatim>\<open>'pipe'\<close>, \<^verbatim>\<open>'tab'\<close> or unset) sets the
  delimiter of the reader; \<open>rows\<close> are the records read with that delimiter.
\<close>

definition fectxt2pivot :: "pylib \<Rightarrow> string \<Rightarrow> string list list \<Rightarrow> error + pivot_line list" where
  "fectxt2pivot lib fec_txt_field_separator rows =
     (if fec_txt_field_separator = ''pipe'' \<or> fec_txt_field_separator = ''tab''
      then decode_rows (fectxt_row lib) 0 (dict_reader fectxt_fieldnames rows)
      else Inl (UserError ''You must select a field separator.''))"

subsection \<open>Generic CSV\<close>

definition genericcsv_fieldnames :: "pyval list" where
  "genericcsv_fieldnames =
     [PyStr ''date'', PyStr ''journal'', PyStr ''account'', PyStr ''partner'',
      PyStr ''analytic'', PyStr ''name'', PyStr ''debit'', PyStr ''credit'']"

text \<open>\<^verbatim>\<open>if l[k]: vals[k] = ref\<close>\<close>

definition set_if :: "pyval \<Rightarrow> string \<Rightarrow> pyval \<Rightarrow> pivot_line \<Rightarrow> pivot_line" where
  "set_if c k ref vals = (if truthy c then vals(k \<mapsto> ref) else vals)"

definition genericcsv_row :: "pylib \<Rightarrow> int \<Rightarrow> csv_row \<Rightarrow> error + pivot_line option" where
  "genericcsv_row lib i l =
     err_bind (item l ''journal'') (\<lambda>journal.
     err_bind (item l ''account'') (\<lambda>account.
     err_bind (item l ''credit'') (\<lambda>credit0.
     err_bind (float_of lib (py_or credit0 (PyInt 0))) (\<lambda>c.
     err_bind (item l ''debit'') (\<lambda>debit0.
     err_bind (float_of lib (py_or debit0 (PyInt 0))) (\<lambda>d.
     err_bind (item l ''date'') (\<lambda>date0.
     err_bind (strptime_of lib date0 ''%d/%m/%Y'') (\<lambda>date.
     err_bind (item l ''name'') (\<lambda>name.
     err_bind (item l ''analytic'') (\<lambda>analytic.
     err_bind (item l ''partner'') (\<lambda>partner.
     Inr (Some
       (set_if partner ''partner'' (PyRef partner)
       (set_if analytic ''analytic'' (PyCode analytic)
          [''journal'' \<mapsto> PyCode journal,
           ''account'' \<mapsto> PyCode account,
           ''credit'' \<mapsto> PyFloat c,
           ''debit'' \<mapsto> PyFloat d,
           ''date'' \<mapsto> date,
           ''name'' \<mapsto> name,
           ''line'' \<mapsto> PyInt i]))))))))))))))"

definition genericcsv2pivot :: "pylib \<Rightarrow> string list list \<Rightarrow> error + pivot_line list" where
  "genericcsv2pivot lib rows =
     decode_rows (genericcsv_row lib) 0 (dict_reader genericcsv_fieldnames rows)"

subsection \<open>Nibelis\<close>

definition nibelis_fieldnames :: "pyval list" where
  "nibelis_fieldnames =
     [PyStr ''trasha'', PyStr ''trashb'', PyStr ''journal'', PyStr ''trashd'', PyStr ''trashe'',
      PyStr ''trashf'', PyStr ''trashg'', PyStr ''date'', PyStr ''trashi'', PyStr ''trashj'',
      PyStr ''trashk'', PyStr ''trashl'', PyStr ''trashm'', PyStr ''trashn'', PyStr ''account'',
      PyStr ''trashp'', PyStr ''trashq'', PyStr ''amount'', PyStr ''trashs'', PyStr ''sign'',
      PyStr ''trashu'', PyStr ''trashv'', PyStr ''name'', PyStr ''trashx'', PyStr ''trashy'',
      PyStr ''trashz'', PyStr ''trashaa'', PyStr ''trashab'', PyStr ''trashac'',
      PyStr ''trashad'', PyStr ''trashae'', PyStr ''analytic'']"

definition nibelis_row :: "pylib \<Rightarrow> int \<Rightarrow> csv_row \<Rightarrow> error + pivot_line option" where
  "nibelis_row lib i l =
     (if i = 1 then Inr None
      else
        err_bind (item l ''amount'') (\<lambda>amount0.
        err_bind (float_comma lib amount0) (\<lambda>amount.
        err_bind (item l ''sign'') (\<lambda>sign.
        let credit = sign_amount sign ''C'' amount (PyBool False);
            debit = sign_amount sign ''D'' amount (PyBool False);
            ana = py_or (py_and (item_get l ''analytic'') (PyCode (item_get l ''analytic'')))
                    (PyBool False)
        in
        err_bind (item l ''journal'') (\<lambda>journal.
        err_bind (item l ''account'') (\<lambda>account.
        err_bind (item l ''date'') (\<lambda>date0.
        err_bind (strptime_of lib date0 ''%y%m%d'') (\<lambda>date.
        err_bind (item l ''name'') (\<lambda>name.
        Inr (Some
          [''journal'' \<mapsto> PyCode journal,
           ''account'' \<mapsto> PyCode account,
           ''analytic'' \<mapsto> ana,
           ''credit'' \<mapsto> credit,
           ''debit'' \<mapsto> debit,
           ''date'' \<mapsto> date,
           ''name'' \<mapsto> name,
           ''line'' \<mapsto> PyInt i]))))))))))"

definition nibelis2pivot :: "pylib \<Rightarrow> string list list \<Rightarrow> error + pivot_line list" where
  "nibelis2pivot lib rows =
     decode_rows (nibelis_row lib) 0 (dict_reader nibelis_fieldnames rows)"

subsection \<open>Payfit\<close>

text \<open>
  The workbook as \<^verbatim>\<open>xlrd\<close> presents it: a list of sheets, a sheet a list of rows, a
  row the list of its cell values.  \<^verbatim>\<open>row[k]\<close> raises \<^verbatim>\<open>IndexError\<close> out of range.
\<close>

definition cell :: "pyval list \<Rightarrow> nat \<Rightarrow> error + pyval" where
  "cell row k = (if k < length row then Inr (row ! k) else Inl IndexError)"

text \<open>
  \<^verbatim>\<open>c.isdigit()\<close> for a character below 256: the ten digits and the superscripts
  one, two and three (U+00B9, U+00B2, U+00B3).
\<close>

definition isdigit :: "char \<Rightarrow> bool" where
  "isdigit c =
     (c \<in> set ''0123456789'' \<or> c = CHR 0xB9 \<or> c = CHR 0xB2 \<or> c = CHR 0xB3)"

definition payfit_row :: "pylib \<Rightarrow> int \<Rightarrow> pyval list \<Rightarrow> error + pivot_line option" where
  "payfit_row lib i row =
     (if i = 1 then Inr None
      else
        err_bind (cell row 0) (\<lambda>row0.
        if \<not> truthy row0 then Inr None
        else
          let account0 = str_of lib row0;
              account = (if CHR ''.'' \<in> set account0
                         then hd (split_on (CHR ''.'') account0) else account0)
          in
          (case account of
             [] \<Rightarrow> Inl IndexError
           | first # others \<Rightarrow>
               if \<not> isdigit first then Inr None
               else
                 err_bind (cell row 3) (\<lambda>row3.
                 let analytic = str_of lib row3 in
                 err_bind (cell row 5) (\<lambda>row5.
                 err_bind (float_of lib (py_or row5 (PyFloat 0))) (\<lambda>d.
                 err_bind (cell row 6) (\<lambda>row6.
                 err_bind (float_of lib (py_or row6 (PyFloat 0))) (\<lambda>c.
                 Inr (Some
                   (set_if (PyStr analytic) ''analytic'' (PyCode (PyStr analytic))
                      [''account'' \<mapsto> PyCode (PyStr account),
                       ''name'' \<mapsto> PyStr ''Paye'',
                       ''debit'' \<mapsto> PyFloat d,
                       ''credit'' \<mapsto> PyFloat c,
                       ''line'' \<mapsto> PyInt i]))))))))))"

definition payfit2pivot :: "pylib \<Rightarrow> pyval list list list \<Rightarrow> error + pivot_line list" where
  "payfit2pivot lib wb =
     (if 1 < length wb then decode_rows (payfit_row lib) 0 (wb ! 1) else Inl IndexError)"

subsection \<open>Choice of the decoder\<close>

text \<open>
  The uploaded file, as the layers below the decoders present it: the records of the
  delimited reader configured by the decoder, the decoded text, and the workbook.
\<close>

record upload =
  csv_rows :: "string list list"
  file_str :: string
  workbook :: "pyval list list list"

definition file2pivot ::
  "pylib \<Rightarrow> string \<Rightarrow> string \<Rightarrow> upload \<Rightarrow> error + pivot_line list"
where
  "file2pivot lib file_format fec_txt_field_separator f =
     (if file_format = ''nibelis'' then nibelis2pivot lib (csv_rows f)
      else if file_format = ''genericcsv'' then genericcsv2pivot lib (csv_rows f)
      else if file_format = ''quadra'' then quadra2pivot lib (file_str f)
      else if file_format = ''extenso'' then extenso2pivot lib (csv_rows f)
      else if file_format = ''payfit'' then payfit2pivot lib (workbook f)
      else if file_format = ''cielpaye'' then cielpaye2pivot lib (csv_rows f)
      else if file_format = ''fec_txt'' then
        fectxt2pivot lib fec_txt_field_separator (csv_rows f)
      else Inl (UserError ''You must select a file format.''))"

subsection \<open>An example library\<close>

text \<open>
  Example functions for the parameters above.  They agree with Python on plain decimal
  numbers (an optional sign, digits, for \<^verbatim>\<open>float\<close> an optional fraction after a
  period) and on zero-padded dates for the directives \<^verbatim>\<open>%d\<close>, \<^verbatim>\<open>%m\<close>, \<^verbatim>\<open>%y\<close>
  and \<^verbatim>\<open>%Y\<close>; whatever else Python accepts (exponents, blanks, one-digit days) they
  refuse with \<^verbatim>\<open>ValueError\<close>.  They are used in the examples only.
\<close>

definition digit_of :: "char \<Rightarrow> nat option" where
  "digit_of c =
     (if c \<in> set ''0123456789''
      then Some (length (takeWhile (\<lambda>d. d \<noteq> c) ''0123456789'')) else None)"

fun digits_value :: "nat \<Rightarrow> string \<Rightarrow> nat option" where
  "digits_value acc [] = Some acc"
| "digits_value acc (c # cs) =
     (case digit_of c of
        None \<Rightarrow> None
      | Some d \<Rightarrow> digits_value (10 * acc + d) cs)"

definition unsigned_int :: "string \<Rightarrow> nat option" where
  "unsigned_int s = (if s = [] then None else digits_value 0 s)"

definition unsigned_float :: "string \<Rightarrow> real option" where
  "unsigned_float s =
     (let whole = takeWhile (\<lambda>c. c \<noteq> CHR ''.'') s;
          fraction = drop 1 (dropWhile (\<lambda>c. c \<noteq> CHR ''.'') s)
      in if whole = [] \<and> fraction = [] then None
         else (case (digits_value 0 whole, digits_value 0 fraction) of
                 (Some w, Some f) \<Rightarrow> Some (real w + real f / 10 ^ length fraction)
               | _ \<Rightarrow> None))"

definition signed :: "(string \<Rightarrow> 'a option) \<Rightarrow> ('a \<Rightarrow> 'b) \<Rightarrow> ('b \<Rightarrow> 'b) \<Rightarrow> string \<Rightarrow> error + 'b" where
  "signed parse inject negate s =
     (case s of
        [] \<Rightarrow> Inl ValueError
      | c # cs \<Rightarrow>
          if c = CHR ''-'' then
            (case parse cs of None \<Rightarrow> Inl ValueError | Some n \<Rightarrow> Inr (negate (inject n)))
          else if c = CHR ''+'' then
            (case parse cs of None \<Rightarrow> Inl ValueError | Some n \<Rightarrow> Inr (inject n))
          else
            (case parse s of None \<Rightarrow> Inl ValueError | Some n \<Rightarrow> Inr (inject n)))"

definition plain_int :: "string \<Rightarrow> error + int" where
  "plain_int = signed unsigned_int int uminus"

definition plain_float :: "string \<Rightarrow> error + real" where
  "plain_float = signed unsigned_float id uminus"

definition days_in_month :: "nat \<Rightarrow> nat \<Rightarrow> nat" where
  "days_in_month y m =
     (if m = 2 then (if y mod 4 = 0 \<and> (y mod 100 \<noteq> 0 \<or> y mod 400 = 0) then 29 else 28)
      else if m = 4 \<or> m = 6 \<or> m = 9 \<or> m = 11 then 30
      else 31)"

definition field_value :: "nat \<Rightarrow> string \<Rightarrow> nat option" where
  "field_value n s = (if length s < n then None else digits_value 0 (take n s))"

text \<open>
  The format is read from left to right; \<open>y\<close>, \<open>m\<close> and \<open>d\<close> are the fields read so
  far (1900, 1 and 1 when the format has no directive for them).
\<close>

fun strptime_walk :: "string \<Rightarrow> string \<Rightarrow> nat \<Rightarrow> nat \<Rightarrow> nat \<Rightarrow> error + pydate" where
  "strptime_walk [] s y m d =
     (if s = [] \<and> 1 \<le> m \<and> m \<le> 12 \<and> 1 \<le> d \<and> d \<le> days_in_month y m \<and> 1 \<le> y
      then Inr (YMD y m d) else Inl ValueError)"
| "strptime_walk [f] s y m d =
     (case s of
        [] \<Rightarrow> Inl ValueError
      | c # cs \<Rightarrow> if f = c \<and> f \<noteq> CHR ''%'' then strptime_walk [] cs y m d else Inl ValueError)"
| "strptime_walk (f # k # fmt) s y m d =
     (if f = CHR ''%'' then
        (if k = CHR ''d'' then
           (case field_value 2 s of
              None \<Rightarrow> Inl ValueError
            | Some v \<Rightarrow> strptime_walk fmt (drop 2 s) y m v)
         else if k = CHR ''m'' then
           (case field_value 2 s of
              None \<Rightarrow> Inl ValueError
            | Some v \<Rightarrow> strptime_walk fmt (drop 2 s) y v d)
         else if k = CHR ''y'' then
           (case field_value 2 s of
              None \<Rightarrow> Inl ValueError
            | Some v \<Rightarrow> strptime_walk fmt (drop 2 s) (if v < 69 then 2000 + v else 1900 + v) m d)
         else if k = CHR ''Y'' then
           (case field_value 4 s of
              None \<Rightarrow> Inl ValueError
            | Some v \<Rightarrow> strptime_walk fmt (drop 4 s) v m d)
         else Inl ValueError)
      else
        (case s of
           [] \<Rightarrow> Inl ValueError
         | c # cs \<Rightarrow> if f = c then strptime_walk (k # fmt) cs y m d else Inl ValueError))"

definition plain_strptime :: "string \<Rightarrow> string \<Rightarrow> error + pydate" where
  "plain_strptime s fmt = strptime_walk fmt s 1900 1 1"

text \<open>\<^verbatim>\<open>str\<close> of an integer and of a float without fraction (\<^verbatim>\<open>'411000.0'\<close>).\<close>

definition digit_char :: "nat \<Rightarrow> char" where
  "digit_char n = ''0123456789'' ! n"

function show_nat :: "nat \<Rightarrow> string" where
  "show_nat n =
     (if n < 10 then [digit_char n] else show_nat (n div 10) @ [digit_char (n mod 10)])"
  by pat_completeness auto
termination
  by (relation "measure id") auto

declare show_nat.simps [simp del]

definition show_int :: "int \<Rightarrow> string" where
  "show_int n = (if n < 0 then CHR ''-'' # show_nat (nat (- n)) else show_nat (nat n))"

definition plain_str :: "pyval \<Rightarrow> string" where
  "plain_str v =
     (case v of
        PyInt n \<Rightarrow> show_int n
      | PyFloat r \<Rightarrow> show_int \<lfloor>r\<rfloor> @ ''.0''
      | PyBool b \<Rightarrow> (if b then ''True'' else ''False'')
      | _ \<Rightarrow> ''None'')"

definition plain_lib :: pylib where
  "plain_lib =
     \<lparr> py_float = plain_float, py_int = plain_int, strptime = plain_strptime,
       py_str = plain_str \<rparr>"

text \<open>Example input: a Quadra row of 55 characters, a debit of 120.00 on 15/02/17.\<close>

definition example_quadra_row :: string where
  "example_quadra_row = ''M41100000VT000150217 Invoice 0001        D0000000012000''"

subsection \<open>Observations on pivot lines\<close>

text \<open>The number a value stands for in arithmetic: floats, integers and booleans.\<close>

definition number_of :: "pyval \<Rightarrow> real option" where
  "number_of v =
     (case v of
        PyFloat r \<Rightarrow> Some r
      | PyInt n \<Rightarrow> Some (of_int n)
      | PyBool b \<Rightarrow> Some (if b then 1 else 0)
      | _ \<Rightarrow> None)"

subsection \<open>Example rows\<close>

text \<open>
  One record per delimited format, as the reader yields it, and a row of the second
  sheet of a Payfit workbook.  The In Extenso record has a debit of 120,00 and no
  credit, the Ciel Paye record a credit of 1500,00; the Nibelis and Generic CSV records
  have blank analytic (and partner) columns.
\<close>

definition example_extenso :: "string list" where
  "example_extenso = [''VT'', ''15022017'', [], ''411000'', [], [], [], [], ''120,00'', []]"

definition example_extenso_negative :: "string list" where
  "example_extenso_negative =
     [''VT'', ''15022017'', [], ''411000'', [], [], [], [], [], ''-5,00'']"

definition example_cielpaye :: "string list" where
  "example_cielpaye =
     [[], ''OD'', ''15/02/2017'', ''421000'', [], ''1500,00'', ''C'', [], ''Salaires'', []]"

definition example_fectxt :: "string list" where
  "example_fectxt =
     [''VT'', ''Ventes'', ''1'', ''20170215'', ''411000'', ''Clients'', [], [], ''F1'',
      ''20170215'', ''Facture 1'', ''120,00'', ''0,00'', ''A1242'', [], [], [], []]"

definition example_genericcsv :: "string list" where
  "example_genericcsv =
     [''15/02/2017'', ''VT'', ''411000'', [], [], ''Invoice'', ''120.00'', []]"

definition example_nibelis :: "string list" where
  "example_nibelis =
     [[], [], ''OD'', [], [], [], [], ''170215'', [], [], [], [], [], [], ''421000'', [], [],
      ''1500,00'', [], ''C'', [], [], ''Salaires'', [], [], [], [], [], [], [], [], []]"

definition example_payfit :: "pyval list" where
  "example_payfit =
     [PyFloat 421000, PyStr ''Salaires'', PyStr [], PyStr [], PyStr [], PyFloat 1500, PyStr []]"

text \<open>
  The optional references of a pivot line are well formed: \<^verbatim>\<open>partner\<close> is absent
  or \<^verbatim>\<open>{'ref': x}\<close> with a true \<open>x\<close>; \<^verbatim>\<open>analytic\<close> is absent, \<^verbatim>\<open>False\<close> or
  \<^verbatim>\<open>{'code': x}\<close> with a true \<open>x\<close>.  In particular neither is an empty string.
\<close>

definition references_wellformed :: "pivot_line \<Rightarrow> bool" where
  "references_wellformed v =
     ((case v ''partner'' of
         None \<Rightarrow> True
       | Some p \<Rightarrow> (case p of PyRef x \<Rightarrow> truthy x | _ \<Rightarrow> False)) \<and>
      (case v ''analytic'' of
         None \<Rightarrow> True
       | Some a \<Rightarrow> (case a of PyCode x \<Rightarrow> truthy x | PyBool b \<Rightarrow> \<not> b | _ \<Rightarrow> False)))"

definition example_header :: "string list" where
  "example_header = [''header'']"


section \<open>Properties of the entry assembler\<close>

subsection \<open>Invariant of the scan\<close>

lemma open_nonempty_init: "0 < prec \<Longrightarrow> open_nonempty prec init_scan"
  by (simp add: open_nonempty_def init_scan_def float_is_zero_def)

lemma extract_step_open:
  "extract_step fp prec st l = Inr st' \<Longrightarrow> \<exists>m. cur_move st' = Some m \<and> line_ids m \<noteq> []"
  by (auto simp: extract_step_def add_balance_def new_move_def split: if_splits option.splits)

lemma extract_step_nonempty:
  "extract_step fp prec st l = Inr st' \<Longrightarrow> open_nonempty prec st'"
  using extract_step_open[of fp prec st l st'] by (auto simp: open_nonempty_def)

lemma extract_loop_nonempty:
  "open_nonempty prec st \<Longrightarrow> extract_loop fp prec st ls = Inr st' \<Longrightarrow> open_nonempty prec st'"
proof (induction ls arbitrary: st)
  case Nil
  then show ?case by simp
next
  case (Cons l ls)
  then show ?case
    by (auto split: sum.splits dest: extract_step_nonempty)
qed

lemma step_appends_iff:
  assumes "open_nonempty prec st"
  shows "appended_to_current st l (extract_step fp prec st l) \<longleftrightarrow> same_move prec st l"
proof (cases "same_move prec st l")
  case True
  then have "\<not> float_is_zero (cur_balance st) (Precision_rounding prec)"
    by (simp add: same_move_def)
  with assms obtain m where "cur_move st = Some m"
    by (auto simp: open_nonempty_def split: option.splits)
  with True show ?thesis
    by (simp add: appended_to_current_def extract_step_def add_balance_def)
next
  case False
  with assms show ?thesis
    by (auto simp: appended_to_current_def extract_step_def add_balance_def new_move_def
          open_nonempty_def split: option.splits if_splits)
qed

lemma step_balance:
  "extract_step fp prec st l = Inr st' \<Longrightarrow>
   cur_balance st' = fl_add fp (cur_balance st) (fl_sub fp (vl_credit l) (vl_debit l))"
  by (auto simp: extract_step_def add_balance_def new_move_def split: option.splits if_splits)

lemma loop_balance:
  "extract_loop fp prec st ls = Inr st' \<Longrightarrow>
   cur_balance st' =
     foldl (\<lambda>b l. fl_add fp b (fl_sub fp (vl_credit l) (vl_debit l))) (cur_balance st) ls"
proof (induction ls arbitrary: st)
  case Nil
  then show ?case by simp
next
  case (Cons l ls)
  then show ?case
    by (auto split: sum.splits dest: step_balance)
qed

text \<open>
  The open entry holds the last lines scanned, from the line that opened it, and the
  current key is the key of that line.
\<close>

lemma line_ref_get_or_false: "get_or_false (vl_ref l) = line_ref l"
  by (simp add: get_or_false_def line_ref_def)

lemma step_opened_by:
  assumes "extract_step fp prec st l = Inr st'"
    and "(seen = [] \<and> cur_move st = None) \<or>
         (\<exists>pre l0 rest. seen = pre @ l0 # rest \<and> opened_by l0 rest st)"
  shows "\<exists>pre l0 rest. seen @ [l] = pre @ l0 # rest \<and> opened_by l0 rest st'"
proof (cases "same_move prec st l")
  case True
  with assms(1) obtain m where m: "cur_move st = Some m"
    and st': "st' = add_balance fp l
        (st\<lparr> cur_move := Some (m\<lparr> line_ids := line_ids m @ [prepare_move_line l] \<rparr>) \<rparr>)"
    by (auto simp: extract_step_def split: option.splits)
  with assms(2) obtain pre l0 rest where
    s: "seen = pre @ l0 # rest" and o: "opened_by l0 rest st"
    by auto
  from o m st' have "opened_by l0 (rest @ [l]) st'"
    by (auto simp: opened_by_def add_balance_def)
  moreover from s have "seen @ [l] = pre @ l0 # (rest @ [l])" by simp
  ultimately show ?thesis by blast
next
  case False
  with assms(1) have "opened_by l [] st'"
    by (auto simp: extract_step_def opened_by_def add_balance_def new_move_def
          line_ref_get_or_false split: option.splits if_splits)
  then show ?thesis by blast
qed

lemma loop_opened_by:
  assumes "extract_loop fp prec st ls = Inr st'"
    and "(seen = [] \<and> cur_move st = None) \<or>
         (\<exists>pre l0 rest. seen = pre @ l0 # rest \<and> opened_by l0 rest st)"
  shows "(seen @ ls = [] \<and> cur_move st' = None) \<or>
         (\<exists>pre l0 rest. seen @ ls = pre @ l0 # rest \<and> opened_by l0 rest st')"
  using assms
proof (induction ls arbitrary: st seen)
  case Nil
  then show ?case by simp
next
  case (Cons l ls)
  from Cons.prems(1) obtain st1 where s1: "extract_step fp prec st l = Inr st1"
    and s2: "extract_loop fp prec st1 ls = Inr st'"
    by (auto split: sum.splits)
  from step_opened_by[OF s1 Cons.prems(2)]
  have "(seen @ [l] = [] \<and> cur_move st1 = None) \<or>
        (\<exists>pre l0 rest. seen @ [l] = pre @ l0 # rest \<and> opened_by l0 rest st1)"
    by blast
  from Cons.IH[OF s2 this] show ?case by simp
qed

lemma same_move_opened_by:
  assumes "opened_by l0 rest st"
  shows "same_move prec st l \<longleftrightarrow>
           same_key l0 l \<and> \<not> float_is_zero (cur_balance st) (Precision_rounding prec)"
  using assms
  by (auto simp: opened_by_def same_move_def same_key_def line_ref_get_or_false py_eq_def)

lemma same_key_text:
  assumes "text_key a" and "text_key b"
  shows "same_key a b \<longleftrightarrow>
           vl_journal_id a = vl_journal_id b \<and> vl_ref a = vl_ref b \<and> vl_date a = vl_date b"
  using assms
  by (auto simp: same_key_def text_key_def line_ref_def py_eq_def
        split: option.splits pyval.splits)

lemma step_zero_balance:
  assumes "float_is_zero (cur_balance st) (Precision_rounding prec)"
    and "opened_by l0 rest st"
  shows "if rest = []
         then extract_step fp prec st l = Inl (AssertionError ''move should have more than 1 line'')
         else started_new_move st l (extract_step fp prec st l)"
  using assms
  by (auto simp: started_new_move_def extract_step_def add_balance_def new_move_def same_move_def
        opened_by_def)

lemma step_first_line:
  assumes "float_is_zero (cur_balance st) (Precision_rounding prec)" and "cur_move st = None"
  shows "started_new_move st l (extract_step fp prec st l)"
  using assms
  by (auto simp: started_new_move_def extract_step_def add_balance_def new_move_def same_move_def)

lemmas scan_eval =
  extract_moves_def extract_step_def same_move_def new_move_def add_balance_def init_scan_def
  float_is_zero_def py_eq_def get_or_false_def get_or_none_def prepare_move_def
  prepare_move_line_def checked_line_def move_balance_def exact_floats_def

subsection \<open>The balance error between entries\<close>

text \<open>
  When the line does not continue the open entry, an entry has been sealed before and
  the balance is not zero, the scan stops with the error that cites the line before.
\<close>

lemma unbalanced_after_first_entry:
  assumes "\<not> same_move prec st l" and "moves st \<noteq> []"
    and "\<not> float_is_zero (cur_balance st) (Precision_rounding prec)"
  shows "extract_step fp prec st l = Inl (Not_balanced (vl_line l - 1) (cur_balance st))"
  using assms by (simp add: extract_step_def)

text \<open>
  C1.  The claim: whenever the scan reaches a line that does not extend the open entry
  and the open entry's balance is not zero, assembly fails citing line \<open>N - 1\<close>.  The
  test is guarded by \<^verbatim>\<open>if moves and ...\<close>, the list of sealed entries, which is empty
  while the first entry is open.  Lines 1 and 2 (journal 1, credit 100 and debit 60) leave
  a balance of 40; line 3 is of journal 2.  No error is raised: the first entry is
  sealed unbalanced, and the import ends with two entries of balance 40 and -40.
\<close>

theorem first_entry_sealed_unbalanced:
  "(case extract_moves exact_floats (1 / 100)
          [checked_line 1 1 100 0, checked_line 2 1 0 60,
           checked_line 3 2 10 0, checked_line 4 2 0 50] of
      Inr ms \<Rightarrow> map move_balance ms = [40, - 40] \<and> map (\<lambda>m. length (line_ids m)) ms = [2, 2]
    | Inl e \<Rightarrow> False)"
  by (simp add: scan_eval)

subsection \<open>The running balance\<close>

text \<open>
  C2.  The claim: when a new entry is started the running balance is reset to the
  line's credit - debit, so that the balance tested where an entry is sealed is the
  sum over the lines of that entry.  The source has no reset: \<^verbatim>\<open>cur_balance\<close> is
  set to 0.0 once, before the loop, and every line adds to it.  Amended: every line,
  whether it is appended or starts a new entry, adds its float difference credit - debit
  to the running balance carried in; the balance tested at any point of the scan is the
  float accumulation, from 0.0 and in the order of the file, over all the lines scanned
  since the start of the file.  Nothing is assumed of the float operations.
\<close>

theorem running_balance_cumulative:
  "(extract_step fp prec st l = Inr st' \<longrightarrow>
      cur_balance st' = fl_add fp (cur_balance st) (fl_sub fp (vl_credit l) (vl_debit l))) \<and>
   (extract_loop fp prec init_scan ls = Inr st'' \<longrightarrow>
      cur_balance st'' =
        foldl (\<lambda>b l. fl_add fp b (fl_sub fp (vl_credit l) (vl_debit l))) 0 ls)"
  using step_balance[of fp prec st l st'] loop_balance[of fp prec init_scan ls st'']
  by (simp add: init_scan_def)

theorem running_balance_cumulative_witness:
  "(case extract_loop exact_floats (1 / 100) init_scan
          [checked_line 1 1 100 0, checked_line 2 1 0 60] of
      Inr s \<Rightarrow>
        cur_balance s = 40 \<and>
        map_option (\<lambda>m. length (line_ids m)) (cur_move s) = Some 2 \<and>
        (case extract_step exact_floats (1 / 100) s (checked_line 3 1 0 30) of
           Inr s' \<Rightarrow> cur_balance s' = 10
         | Inl e \<Rightarrow> False)
    | Inl e \<Rightarrow> False)"
proof -
  let ?ls = "[checked_line 1 1 100 0, checked_line 2 1 0 60]"
  obtain s where s: "extract_loop exact_floats (1 / 100) init_scan ?ls = Inr s"
    by (simp add: scan_eval)
  obtain s' where s': "extract_step exact_floats (1 / 100) s (checked_line 3 1 0 30) = Inr s'"
    using s by (auto simp: scan_eval)
  note th = running_balance_cumulative[of exact_floats "1 / 100" s "checked_line 3 1 0 30" s'
      ?ls s]
  have "cur_balance s =
      foldl (\<lambda>b l. fl_add exact_floats b (fl_sub exact_floats (vl_credit l) (vl_debit l))) 0 ?ls"
    using th s by blast
  then have b: "cur_balance s = 40"
    by (simp add: checked_line_def exact_floats_def)
  have "cur_balance s' = fl_add exact_floats (cur_balance s)
          (fl_sub exact_floats (vl_credit (checked_line 3 1 0 30))
             (vl_debit (checked_line 3 1 0 30)))"
    using th s' by blast
  with b have b': "cur_balance s' = 10"
    by (simp add: checked_line_def exact_floats_def)
  have "map_option (\<lambda>m. length (line_ids m)) (cur_move s) = Some 2"
    using s by (auto simp: scan_eval)
  with b b' s s' show ?thesis by simp
qed

text \<open>
  The claim fails where the balance carried into a new entry is not zero.  With the
  rounding unit 0.01, lines 1 and 2 (credit 100 + 1/1024, debit 100) leave 1/1024, zero
  within precision; line 3 (credit 50) starts a new entry, and the running balance is
  50 + 1/1024, not 50.  All these amounts and sums are floats, so the float operations
  are exact on them.
\<close>

theorem balance_not_reset_counterexample:
  "(case extract_loop exact_floats (1 / 100) init_scan
          [checked_line 1 1 (102401 / 1024) 0, checked_line 2 1 0 100, checked_line 3 1 50 0] of
      Inr st \<Rightarrow>
        map_option line_ids (cur_move st) = Some [prepare_move_line (checked_line 3 1 50 0)] \<and>
        cur_balance st = 51201 / 1024 \<and>
        cur_balance st \<noteq> vl_credit (checked_line 3 1 50 0) - vl_debit (checked_line 3 1 50 0)
    | Inl e \<Rightarrow> False)"
  by (simp add: scan_eval)

subsection \<open>Length of the entries\<close>

text \<open>Every entry sealed inside the loop has at least two lines (the \<^verbatim>\<open>assert\<close>).\<close>

lemma sealed_in_step_long:
  assumes "extract_step fp prec st l = Inr st'" and "\<forall>m\<in>set (moves st). 1 < length (line_ids m)"
  shows "\<forall>m\<in>set (moves st'). 1 < length (line_ids m)"
  using assms
  by (auto simp: extract_step_def add_balance_def new_move_def split: option.splits if_splits)

lemma sealed_in_loop_long:
  assumes "extract_loop fp prec st ls = Inr st'" and "\<forall>m\<in>set (moves st). 1 < length (line_ids m)"
  shows "\<forall>m\<in>set (moves st'). 1 < length (line_ids m)"
  using assms
proof (induction ls arbitrary: st)
  case Nil
  then show ?case by simp
next
  case (Cons l ls)
  from Cons.prems(1) obtain st1 where s1: "extract_step fp prec st l = Inr st1"
    and s2: "extract_loop fp prec st1 ls = Inr st'"
    by (auto split: sum.splits)
  from sealed_in_step_long[OF s1 Cons.prems(2)] Cons.IH[OF s2] show ?case by blast
qed

text \<open>
  C3.  The claim: every entry in the output has at least two lines, the one sealed at
  the end of the input included.  Inside the loop the source asserts it
  (\<^verbatim>\<open>assert len(cur_move['line_ids']) > 1\<close>); after the loop the open entry is added
  by \<^verbatim>\<open>if cur_move: moves.append(cur_move)\<close> with no such test.  A file of one line
  whose credit and debit are both 0.0 gives one entry of one line.
\<close>

theorem last_entry_single_line:
  "(case extract_moves exact_floats (1 / 100) [checked_line 1 1 0 0] of
      Inr ms \<Rightarrow> map (\<lambda>m. length (line_ids m)) ms = [1]
    | Inl e \<Rightarrow> False)"
  by (simp add: scan_eval)

subsection \<open>Appending or starting a new entry\<close>

lemma split_single: "[a] = pre @ x # rest \<Longrightarrow> pre = [] \<and> x = a \<and> rest = []"
  by (cases pre) auto

lemma split_pair:
  "[a, b] = pre @ x # rest \<Longrightarrow> length rest = 1 \<Longrightarrow> pre = [] \<and> x = a \<and> rest = [b]"
  by (cases pre; cases rest) auto

text \<open>
  C4.  The claim: a line is appended to the open entry if and only if its key equals
  the current group key and the running balance is not zero; when the balance is zero
  a new entry is started even if the key matches.  The last part fails when the open
  entry holds a single line: the scan then stops on the assertion that an entry has more
  than one line.  Amended, for every state that the scan reaches after the lines
  \<open>before\<close>: before the first line there is no open entry and the line starts one;
  afterwards the open entry holds the last lines scanned, from the line \<open>l0\<close> that
  opened it, and the line is appended if and only if its key (journal, reference, date)
  equals the key of \<open>l0\<close> and the running balance is not zero within the rounding
  unit.  For keys of text the equality of keys is the equality of journal, reference
  and date.  When the balance is zero within the rounding unit the line is not appended,
  whatever its key: a new entry made of this line is started and the open one is sealed,
  unless the open entry holds the single line \<open>l0\<close>, where the assertion fails.
\<close>

theorem appended_iff_key_of_opener_and_unbalanced:
  assumes "0 < prec" and "extract_loop fp prec init_scan before = Inr st"
  shows "(before = [] \<and> cur_move st = None \<and>
            started_new_move st l (extract_step fp prec st l)) \<or>
         (\<exists>pre l0 rest.
            before = pre @ l0 # rest \<and>
            cur_move st =
              Some ((prepare_move l0)\<lparr> line_ids := map prepare_move_line (l0 # rest) \<rparr>) \<and>
            (appended_to_current st l (extract_step fp prec st l) \<longleftrightarrow>
               same_key l0 l \<and> \<not> float_is_zero (cur_balance st) (Precision_rounding prec)) \<and>
            (text_key l0 \<and> text_key l \<longrightarrow>
               (same_key l0 l \<longleftrightarrow>
                  vl_journal_id l0 = vl_journal_id l \<and> vl_ref l0 = vl_ref l \<and>
                  vl_date l0 = vl_date l)) \<and>
            (float_is_zero (cur_balance st) (Precision_rounding prec) \<longrightarrow>
               \<not> appended_to_current st l (extract_step fp prec st l) \<and>
               (if rest = []
                then extract_step fp prec st l =
                       Inl (AssertionError ''move should have more than 1 line'')
                else started_new_move st l (extract_step fp prec st l))))"
proof -
  have start: "([] = [] \<and> cur_move init_scan = None) \<or>
      (\<exists>pre l0 rest. [] = pre @ l0 # rest \<and> opened_by l0 rest init_scan)"
    by (simp add: init_scan_def)
  from loop_opened_by[OF assms(2) start]
  consider (first) "before = []" "cur_move st = None"
    | (later) pre l0 rest where "before = pre @ l0 # rest" "opened_by l0 rest st"
    by auto
  then show ?thesis
  proof cases
    case first
    with assms(2) have "st = init_scan" by simp
    with assms(1) have "float_is_zero (cur_balance st) (Precision_rounding prec)"
      by (simp add: init_scan_def float_is_zero_def)
    from step_first_line[OF this first(2)] first show ?thesis by blast
  next
    case later
    from later(2) have cm: "cur_move st =
        Some ((prepare_move l0)\<lparr> line_ids := map prepare_move_line (l0 # rest) \<rparr>)"
      by (simp add: opened_by_def)
    then have inv: "open_nonempty prec st"
      by (simp add: open_nonempty_def)
    have iff: "appended_to_current st l (extract_step fp prec st l) \<longleftrightarrow>
        same_key l0 l \<and> \<not> float_is_zero (cur_balance st) (Precision_rounding prec)"
      using step_appends_iff[OF inv, of l fp] same_move_opened_by[OF later(2), of prec l]
      by simp
    have tk: "text_key l0 \<and> text_key l \<longrightarrow>
        (same_key l0 l \<longleftrightarrow>
           vl_journal_id l0 = vl_journal_id l \<and> vl_ref l0 = vl_ref l \<and>
           vl_date l0 = vl_date l)"
      using same_key_text[of l0 l] by blast
    have zero: "float_is_zero (cur_balance st) (Precision_rounding prec) \<longrightarrow>
        \<not> appended_to_current st l (extract_step fp prec st l) \<and>
        (if rest = []
         then extract_step fp prec st l =
                Inl (AssertionError ''move should have more than 1 line'')
         else started_new_move st l (extract_step fp prec st l))"
      using iff step_zero_balance[OF _ later(2), of prec fp l] by blast
    from later(1) cm iff tk zero show ?thesis by blast
  qed
qed

theorem appended_iff_key_of_opener_and_unbalanced_witness:
  "(case extract_loop exact_floats (1 / 100) init_scan [checked_line 1 1 100 0] of
      Inr st \<Rightarrow>
        same_key (checked_line 1 1 100 0) (checked_line 2 1 0 100) \<and>
        appended_to_current st (checked_line 2 1 0 100)
          (extract_step exact_floats (1 / 100) st (checked_line 2 1 0 100)) \<and>
        \<not> same_key (checked_line 1 1 100 0) (checked_line 2 2 0 100) \<and>
        \<not> appended_to_current st (checked_line 2 2 0 100)
          (extract_step exact_floats (1 / 100) st (checked_line 2 2 0 100))
    | Inl e \<Rightarrow> False) \<and>
   (case extract_loop exact_floats (1 / 100) init_scan
          [checked_line 1 1 100 0, checked_line 2 1 0 100] of
      Inr st \<Rightarrow>
        float_is_zero (cur_balance st) (Precision_rounding (1 / 100)) \<and>
        same_key (checked_line 1 1 100 0) (checked_line 3 1 30 0) \<and>
        \<not> appended_to_current st (checked_line 3 1 30 0)
          (extract_step exact_floats (1 / 100) st (checked_line 3 1 30 0)) \<and>
        started_new_move st (checked_line 3 1 30 0)
          (extract_step exact_floats (1 / 100) st (checked_line 3 1 30 0))
    | Inl e \<Rightarrow> False)"
proof -
  let ?l1 = "checked_line 1 1 100 0"
  let ?l2 = "checked_line 2 1 0 100"
  have p: "(0::real) < 1 / 100" by simp
  have k: "same_key ?l1 (checked_line 2 1 0 100)" "\<not> same_key ?l1 (checked_line 2 2 0 100)"
    "same_key ?l1 (checked_line 3 1 30 0)"
    by (simp_all add: same_key_def line_ref_def checked_line_def py_eq_def)
  obtain s1 where s1: "extract_loop exact_floats (1 / 100) init_scan [?l1] = Inr s1"
    by (simp add: scan_eval)
  have b1: "\<not> float_is_zero (cur_balance s1) (Precision_rounding (1 / 100))"
    using s1 by (auto simp: scan_eval)
  have a: "appended_to_current s1 (checked_line 2 1 0 100)
             (extract_step exact_floats (1 / 100) s1 (checked_line 2 1 0 100))"
  proof -
    from appended_iff_key_of_opener_and_unbalanced[OF p s1, of "checked_line 2 1 0 100"]
    obtain pre l0 rest where sp: "[?l1] = pre @ l0 # rest"
      and iff: "appended_to_current s1 (checked_line 2 1 0 100)
                  (extract_step exact_floats (1 / 100) s1 (checked_line 2 1 0 100)) \<longleftrightarrow>
                same_key l0 (checked_line 2 1 0 100) \<and>
                \<not> float_is_zero (cur_balance s1) (Precision_rounding (1 / 100))"
      by blast
    from split_single[OF sp] have "l0 = ?l1" by simp
    with iff k(1) b1 show ?thesis by simp
  qed
  have b: "\<not> appended_to_current s1 (checked_line 2 2 0 100)
             (extract_step exact_floats (1 / 100) s1 (checked_line 2 2 0 100))"
  proof -
    from appended_iff_key_of_opener_and_unbalanced[OF p s1, of "checked_line 2 2 0 100"]
    obtain pre l0 rest where sp: "[?l1] = pre @ l0 # rest"
      and iff: "appended_to_current s1 (checked_line 2 2 0 100)
                  (extract_step exact_floats (1 / 100) s1 (checked_line 2 2 0 100)) \<longleftrightarrow>
                same_key l0 (checked_line 2 2 0 100) \<and>
                \<not> float_is_zero (cur_balance s1) (Precision_rounding (1 / 100))"
      by blast
    from split_single[OF sp] have "l0 = ?l1" by simp
    with iff k(2) show ?thesis by simp
  qed
  obtain s2 where s2: "extract_loop exact_floats (1 / 100) init_scan [?l1, ?l2] = Inr s2"
    by (simp add: scan_eval)
  have z: "float_is_zero (cur_balance s2) (Precision_rounding (1 / 100))"
    using s2 by (auto simp: scan_eval)
  have n2: "map_option (\<lambda>m. length (line_ids m)) (cur_move s2) = Some 2"
    using s2 by (auto simp: scan_eval)
  have c: "\<not> appended_to_current s2 (checked_line 3 1 30 0)
             (extract_step exact_floats (1 / 100) s2 (checked_line 3 1 30 0)) \<and>
           started_new_move s2 (checked_line 3 1 30 0)
             (extract_step exact_floats (1 / 100) s2 (checked_line 3 1 30 0))"
  proof -
    from appended_iff_key_of_opener_and_unbalanced[OF p s2, of "checked_line 3 1 30 0"] z
    obtain pre l0 rest where sp: "[?l1, ?l2] = pre @ l0 # rest"
      and cm: "cur_move s2 =
          Some ((prepare_move l0)\<lparr> line_ids := map prepare_move_line (l0 # rest) \<rparr>)"
      and na: "\<not> appended_to_current s2 (checked_line 3 1 30 0)
                 (extract_step exact_floats (1 / 100) s2 (checked_line 3 1 30 0))"
      and nw: "if rest = []
               then extract_step exact_floats (1 / 100) s2 (checked_line 3 1 30 0) =
                      Inl (AssertionError ''move should have more than 1 line'')
               else started_new_move s2 (checked_line 3 1 30 0)
                      (extract_step exact_floats (1 / 100) s2 (checked_line 3 1 30 0))"
      by blast
    from cm n2 have "length rest = 1" by simp
    from split_pair[OF sp this] have "rest \<noteq> []" by simp
    with na nw show ?thesis by simp
  qed
  from s1 s2 k a b c z show ?thesis by simp
qed

text \<open>
  The claim fails on a first line with credit and debit 0.0 followed by a line of the
  same key: the balance is zero and the key matches, yet no new entry is started; the
  scan stops on the assertion.
\<close>

theorem single_line_entry_counterexample:
  "(case extract_loop exact_floats (1 / 100) init_scan [checked_line 1 1 0 0] of
      Inr st \<Rightarrow>
        float_is_zero (cur_balance st) (Precision_rounding (1 / 100)) \<and>
        extract_step exact_floats (1 / 100) st (checked_line 2 1 0 0) =
          Inl (AssertionError ''move should have more than 1 line'')
    | Inl e \<Rightarrow> False) \<and>
   same_key (checked_line 1 1 0 0) (checked_line 2 1 0 0) \<and>
   extract_moves exact_floats (1 / 100) [checked_line 1 1 0 0, checked_line 2 1 0 0] =
     Inl (AssertionError ''move should have more than 1 line'')"
  by (simp add: scan_eval same_key_def line_ref_def)

subsection \<open>No creation call before the checks have passed\<close>

lemma is_creation_simps [simp]:
  "is_creation (Create m)" "is_creation (Post ids)"
  "\<not> is_creation (Match_account n v)" "\<not> is_creation (Match_partner n v)"
  "\<not> is_creation (Match_analytic_account n v)" "\<not> is_creation (Match_journal n v)"
  by (simp_all add: is_creation_def)

lemma creation_free_return: "creation_free (ext_return x)"
  by (simp add: creation_free_def ext_return_def)

lemma creation_free_lift: "creation_free (ext_lift r)"
  by (simp add: creation_free_def ext_lift_def)

lemma creation_free_call: "\<not> is_creation c \<Longrightarrow> creation_free (ext_call c r)"
  by (simp add: creation_free_def ext_call_def)

lemma creation_free_bind:
  assumes "creation_free m" and "\<And>x. creation_free (f x)"
  shows "creation_free (ext_bind m f)"
  unfolding creation_free_def
proof
  fix calls
  from assms(1) obtain cs where cs: "fst (m calls) = calls @ cs" "filter is_creation cs = []"
    unfolding creation_free_def by blast
  show "\<exists>cs. fst (ext_bind m f calls) = calls @ cs \<and> filter is_creation cs = []"
  proof (cases "snd (m calls)")
    case (Inl e)
    with cs show ?thesis
      by (cases "m calls") (auto simp: ext_bind_def)
  next
    case (Inr x)
    from assms(2)[of x] obtain ds where
      ds: "fst (f x (calls @ cs)) = (calls @ cs) @ ds" "filter is_creation ds = []"
      unfolding creation_free_def by blast
    from Inr cs have "fst (ext_bind m f calls) = fst (f x (calls @ cs))"
      by (cases "m calls") (auto simp: ext_bind_def)
    with ds cs(2) show ?thesis
      by (intro exI[of _ "cs @ ds"]) simp
  qed
qed

lemma creation_free_if:
  "creation_free a \<Longrightarrow> creation_free b \<Longrightarrow> creation_free (if c then a else b)"
  by simp

lemma creation_free_match_optional:
  assumes "\<And>v. \<not> is_creation (c v)"
  shows "creation_free (match_optional c f l k k_id)"
  unfolding match_optional_def
  by (intro creation_free_if creation_free_bind creation_free_call creation_free_return assms)

lemma creation_free_check_line: "creation_free (check_line bdio l)"
  unfolding check_line_def
  by (intro creation_free_if creation_free_bind creation_free_call creation_free_return
        creation_free_lift creation_free_match_optional)
     simp_all

lemma creation_free_check_lines: "creation_free (check_lines bdio ls)"
proof (induction ls)
  case Nil
  show ?case by (simp add: creation_free_return)
next
  case (Cons l ls)
  show ?case
    unfolding check_lines.simps
    by (intro creation_free_bind creation_free_check_line Cons.IH creation_free_return)
qed

lemma check_lines_length:
  "check_lines bdio ls calls = (calls', Inr vs) \<Longrightarrow> length vs = length ls"
proof (induction ls arbitrary: calls calls' vs)
  case Nil
  then show ?case by (simp add: ext_return_def)
next
  case (Cons l ls)
  then show ?case
    by (auto simp: ext_bind_def ext_return_def split: prod.splits sum.splits)
qed

text \<open>The creation loop issues creation calls only, and at least one when it fails.\<close>

lemma create_all_calls:
  "\<exists>cs. fst (create_all amo ms calls) = calls @ cs \<and> filter is_creation cs = cs \<and>
        (\<forall>e. snd (create_all amo ms calls) = Inl e \<longrightarrow> cs \<noteq> [])"
proof (induction ms arbitrary: calls)
  case Nil
  show ?case by (simp add: ext_return_def)
next
  case (Cons m ms)
  show ?case
  proof (cases "create amo m")
    case (Inl e)
    then show ?thesis
      by (simp add: ext_bind_def ext_call_def)
  next
    case (Inr i)
    from Cons.IH[of "calls @ [Create m]"] obtain cs where
      cs: "fst (create_all amo ms (calls @ [Create m])) = (calls @ [Create m]) @ cs"
        "filter is_creation cs = cs"
      by blast
    obtain calls' r' where cr: "create_all amo ms (calls @ [Create m]) = (calls', r')"
      by (cases "create_all amo ms (calls @ [Create m])")
    with cs Inr show ?thesis
      by (intro exI[of _ "Create m # cs"])
         (auto simp: ext_bind_def ext_call_def ext_return_def split: sum.splits)
  qed
qed

text \<open>
  C9.  The calls of \<^verbatim>\<open>create_moves_from_pivot\<close> are those of the checking loop over
  the whole pivot, none of which is a creation call, followed by creation calls only.
  When a check fails (an assertion, a missing key, a matcher that raises, a missing
  label or date, a bad credit or debit) or the scan fails (a balance error or the
  assertion on the length), the function fails with that error and no creation call
  has been issued.  When all the checks and the scan pass, every line has been checked,
  and a failure can only come from a creation call.
\<close>

theorem checks_precede_creation:
  assumes "create_moves_from_pivot bdio amo fp prec pivot post_move = (calls, r)"
  shows "\<exists>after. calls = fst (check_lines bdio pivot []) @ after \<and>
           filter is_creation (fst (check_lines bdio pivot [])) = [] \<and>
           filter is_creation after = after \<and>
           (case snd (check_lines bdio pivot []) of
              Inl e \<Rightarrow> r = Inl e \<and> after = []
            | Inr checked \<Rightarrow>
                length checked = length pivot \<and>
                (case extract_moves fp prec checked of
                   Inl e \<Rightarrow> r = Inl e \<and> after = []
                 | Inr entries \<Rightarrow> (\<forall>e. r = Inl e \<longrightarrow> after \<noteq> [])))"
proof -
  obtain calls1 r1 where c1: "check_lines bdio pivot [] = (calls1, r1)"
    by (cases "check_lines bdio pivot []")
  have free: "filter is_creation calls1 = []"
    using creation_free_check_lines[of bdio pivot] c1
    unfolding creation_free_def by (metis append_Nil fst_conv)
  show ?thesis
  proof (cases r1)
    case (Inl e)
    with c1 assms have "calls = calls1" "r = Inl e"
      by (auto simp: create_moves_from_pivot_def ext_bind_def)
    with c1 Inl free show ?thesis by simp
  next
    case (Inr checked)
    note len = check_lines_length[OF c1[unfolded Inr]]
    show ?thesis
    proof (cases "extract_moves fp prec checked")
      case (Inl e)
      with c1 Inr assms have "calls = calls1" "r = Inl e"
        by (auto simp: create_moves_from_pivot_def ext_bind_def ext_lift_def)
      with c1 Inr Inl free len show ?thesis by simp
    next
      case mv: (Inr entries)
      from create_all_calls[of amo entries calls1] obtain cs where
        cs: "fst (create_all amo entries calls1) = calls1 @ cs" "filter is_creation cs = cs"
          "\<forall>e. snd (create_all amo entries calls1) = Inl e \<longrightarrow> cs \<noteq> []"
        by blast
      obtain calls2 r2 where c2: "create_all amo entries calls1 = (calls2, r2)"
        by (cases "create_all amo entries calls1")
      have run: "(calls, r) =
          (case r2 of
             Inl e \<Rightarrow> (calls2, Inl e)
           | Inr rmoves \<Rightarrow>
               if post_move
               then (case post amo rmoves of
                       Inl e \<Rightarrow> (calls2 @ [Post rmoves], Inl e)
                     | Inr u \<Rightarrow> (calls2 @ [Post rmoves], Inr rmoves))
               else (calls2, Inr rmoves))"
        using assms c1 Inr mv c2
        by (auto simp: create_moves_from_pivot_def ext_bind_def ext_lift_def ext_call_def
              ext_return_def split: sum.splits)
      have "\<exists>after. calls = calls1 @ after \<and> filter is_creation after = after \<and>
              (\<forall>e. r = Inl e \<longrightarrow> after \<noteq> [])"
      proof (cases r2)
        case (Inl e)
        with run c2 cs show ?thesis by auto
      next
        case r2: (Inr rmoves)
        show ?thesis
        proof (cases post_move)
          case True
          with run r2 c2 cs have "calls = calls1 @ (cs @ [Post rmoves])"
            by (auto split: sum.splits)
          moreover have "filter is_creation (cs @ [Post rmoves]) = cs @ [Post rmoves]"
            using cs(2) by simp
          ultimately show ?thesis by blast
        next
          case False
          with run r2 c2 cs show ?thesis by auto
        qed
      qed
      with c1 Inr mv free len show ?thesis by auto
    qed
  qed
qed

lemmas check_eval =
  check_line_def match_optional_def float_item_def line_number_def getitem_def get_def
  get_or_none_def ext_bind_def ext_lift_def ext_call_def ext_return_def
  example_resolver_def example_ledger_def example_pivot_line_def

theorem checks_precede_creation_witness:
  "create_moves_from_pivot example_resolver example_ledger exact_floats (1 / 100)
     [example_pivot_line 1 ''411000'' ''invoice'' 0 100,
      example_pivot_line 2 ''707000'' [] 100 0] True =
     ([Match_account 1 (PyCode (PyStr ''411000'')), Match_journal 1 (PyCode (PyStr ''VT'')),
       Match_account 2 (PyCode (PyStr ''707000'')), Match_journal 2 (PyCode (PyStr ''VT''))],
      Inl (Missing_label 2)) \<and>
   (\<exists>after.
      [Match_account 1 (PyCode (PyStr ''411000'')), Match_journal 1 (PyCode (PyStr ''VT'')),
       Match_account 2 (PyCode (PyStr ''707000'')), Match_journal 2 (PyCode (PyStr ''VT''))] =
      fst (check_lines example_resolver
             [example_pivot_line 1 ''411000'' ''invoice'' 0 100,
              example_pivot_line 2 ''707000'' [] 100 0] []) @ after \<and>
      after = [])"
proof -
  let ?pivot = "[example_pivot_line 1 ''411000'' ''invoice'' 0 100,
                 example_pivot_line 2 ''707000'' [] 100 0]"
  let ?calls = "[Match_account 1 (PyCode (PyStr ''411000'')), Match_journal 1 (PyCode (PyStr ''VT'')),
       Match_account 2 (PyCode (PyStr ''707000'')), Match_journal 2 (PyCode (PyStr ''VT''))]"
  have chk: "check_lines example_resolver ?pivot [] = (?calls, Inl (Missing_label 2))"
    by (simp add: check_eval)
  have run: "create_moves_from_pivot example_resolver example_ledger exact_floats (1 / 100) ?pivot True =
               (?calls, Inl (Missing_label 2))"
    by (simp add: create_moves_from_pivot_def ext_bind_def chk del: check_lines.simps)
  show ?thesis
    using checks_precede_creation[OF run] run unfolding chk by simp
qed

text \<open>
  The same input with a label on the second line passes the checks and the scan; the
  two creation calls follow the matcher calls.
\<close>

lemma creation_after_checks_example:
  "create_moves_from_pivot example_resolver example_ledger exact_floats (1 / 100)
     [example_pivot_line 1 ''411000'' ''invoice'' 0 100,
      example_pivot_line 2 ''707000'' ''invoice'' 100 0] True =
     ([Match_account 1 (PyCode (PyStr ''411000'')), Match_journal 1 (PyCode (PyStr ''VT'')),
       Match_account 2 (PyCode (PyStr ''707000'')), Match_journal 2 (PyCode (PyStr ''VT'')),
       Create \<lparr> mv_journal_id = 1, mv_ref = PyNone, mv_date = PyStr ''2017-02-15'',
                line_ids =
                  [\<lparr> ml_credit = 0, ml_debit = 100, ml_name = PyStr ''invoice'',
                     ml_partner_id = PyNone, ml_account_id = 7,
                     ml_analytic_account_id = PyNone, ml_import_reconcile = PyNone \<rparr>,
                   \<lparr> ml_credit = 100, ml_debit = 0, ml_name = PyStr ''invoice'',
                     ml_partner_id = PyNone, ml_account_id = 8,
                     ml_analytic_account_id = PyNone, ml_import_reconcile = PyNone \<rparr>] \<rparr>,
       Post [1]],
      Inr [1])"
  by (simp add: create_moves_from_pivot_def check_eval scan_eval)

section \<open>Properties of the reconciliation matcher\<close>

lemmas rec_eval =
  reconcile_move_lines_def search_marked_def reconcile_ref_def dict_keys_def partner_key_def
  py_join_def py_or_def example_move_line_def

text \<open>The unit that \<^verbatim>\<open>precision_digits=0.01\<close> stands for lies between 0.9 and 1.\<close>

lemma digits_unit_bounds:
  "9 / 10 \<le> (10::real) powr (- (1 / 100))" "(10::real) powr (- (1 / 100)) < 1"
proof -
  have a: "ln (10::real) \<le> 9"
    using ln_le_minus_one[of "10::real"] by simp
  have b: "exp (- (9 / 100)) \<le> exp (- (ln (10::real) / 100))"
    using a by simp
  have c: "91 / 100 \<le> exp (- (9 / 100) :: real)"
    using exp_ge_add_one_self[of "- (9 / 100) :: real"] by simp
  have d: "(10::real) powr (- (1 / 100)) = exp (- (ln 10 / 100))"
    by (simp add: powr_def)
  show "9 / 10 \<le> (10::real) powr (- (1 / 100))"
    using b c d by linarith
  show "(10::real) powr (- (1 / 100)) < 1"
    using powr_less_mono[of "- (1 / 100)" 0 "10::real"] by simp
qed

text \<open>
  C5.  The claim: the matcher never raises; a group that fails one of the five rules is
  logged and skipped.  For the fifth rule the warning is built with
  \<^verbatim>\<open>', '.join(partners.keys())\<close>, and the keys are partner ids (integers) or
  \<^verbatim>\<open>False\<close>: the \<^verbatim>\<open>join\<close> raises \<^verbatim>\<open>TypeError\<close>.  Two lines of one mark on one
  reconcilable account, credit 100 and debit 100, of the partners 5 and 6, pass rules 1
  to 4 and fail rule 5: the matcher raises instead of skipping.
\<close>

theorem different_partners_raise:
  "reconcile_move_lines (\<lambda>ls. Inr ()) (1 / 100)
     [example_move_line 1 100 0 (Some 5), example_move_line 2 0 100 (Some 6)] =
   ([], Some TypeError)"
  by (simp add: rec_eval float_is_zero_def)

text \<open>
  C6.  The claim: the balance rule of the matcher is the test of the assembler, zero if
  and only if \<open>|total| < precision / 2\<close> for the rounding unit \<open>precision\<close>.  The
  assembler calls \<^verbatim>\<open>float_is_zero(cur_balance, precision_rounding=prec)\<close>; the
  matcher calls \<^verbatim>\<open>float_is_zero(total, precision_digits=prec)\<close> with the same
  \<^verbatim>\<open>prec\<close>, the rounding unit, which is then read as a number of digits.  With the
  unit 0.01, a credit of 100 and a debit of 99.60 give the total 0.40: not zero for the
  assembler's test, zero for the matcher's, which has the two lines reconciled.
\<close>

theorem matcher_precision_as_digits:
  "\<not> float_is_zero (40 / 100) (Precision_rounding (1 / 100)) \<and>
   \<not> \<bar>40 / 100 :: real\<bar> < (1 / 100) / 2 \<and>
   float_is_zero (40 / 100) (Precision_digits (1 / 100)) \<and>
   reconcile_move_lines (\<lambda>ls. Inr ()) (1 / 100)
     [example_move_line 1 100 0 (Some 5), example_move_line 2 0 (9960 / 100) (Some 5)] =
   ([Reconcile ''A1242''
       [example_move_line 1 100 0 (Some 5), example_move_line 2 0 (9960 / 100) (Some 5)]],
    None)"
proof -
  have z: "float_is_zero (40 / 100) (Precision_digits (1 / 100))"
    using digits_unit_bounds(1) by (simp add: float_is_zero_def)
  have t: "(100 - 9960 / 100 :: real) = 40 / 100" by simp
  have "reconcile_move_lines (\<lambda>ls. Inr ()) (1 / 100)
     [example_move_line 1 100 0 (Some 5), example_move_line 2 0 (9960 / 100) (Some 5)] =
   ([Reconcile ''A1242''
       [example_move_line 1 100 0 (Some 5), example_move_line 2 0 (9960 / 100) (Some 5)]],
    None)"
    using z by (simp add: rec_eval t)
  with z show ?thesis
    by (simp add: float_is_zero_def)
qed

text \<open>
  The order of the rules: reconciliation is called exactly when the five rules hold (and
  the call itself succeeds); a group whose lines have one partner key never raises by
  itself.
\<close>

lemma dict_keys_Nil_iff: "dict_keys ks = [] \<longleftrightarrow> ks = []"
  by (simp add: dict_keys_def)

lemma reconcile_ref_instructs_iff:
  "reconcile_ref rec prec rec_ref ls = Inr (Reconcile rec_ref ls) \<longleftrightarrow>
     2 \<le> length ls \<and>
     float_is_zero (\<Sum>line\<leftarrow>ls. credit line - debit line) (Precision_digits prec) \<and>
     length (dict_keys (map line_account ls)) = 1 \<and>
     reconcile (hd (dict_keys (map line_account ls))) \<and>
     length (dict_keys (map partner_key ls)) = 1 \<and>
     rec ls = Inr ()"
proof (cases "length ls < 2")
  case True
  then show ?thesis by (simp add: reconcile_ref_def)
next
  case False
  then have ne: "ls \<noteq> []" by auto
  then obtain acc others where acc: "dict_keys (map line_account ls) = acc # others"
    by (cases "dict_keys (map line_account ls)") (auto simp: dict_keys_Nil_iff)
  from ne obtain p ps where ps: "dict_keys (map partner_key ls) = p # ps"
    by (cases "dict_keys (map partner_key ls)") (auto simp: dict_keys_Nil_iff)
  from False acc ps show ?thesis
    by (auto simp: reconcile_ref_def Let_def py_join_def split: sum.splits)
qed

lemma reconcile_ref_returns:
  assumes "length (dict_keys (map partner_key ls)) \<le> 1" and "rec ls = Inr ()"
    and "ls \<noteq> []"
  shows "\<exists>d. reconcile_ref rec prec rec_ref ls = Inr d"
proof -
  from assms(3) obtain acc others where "dict_keys (map line_account ls) = acc # others"
    by (cases "dict_keys (map line_account ls)") (auto simp: dict_keys_Nil_iff)
  with assms(1,2) show ?thesis
    by (auto simp: reconcile_ref_def Let_def)
qed

section \<open>Properties of the decoders\<close>

subsection \<open>The shared loop\<close>

lemma err_bind_Inr [simp]:
  "err_bind m f = Inr y \<longleftrightarrow> (\<exists>x. m = Inr x \<and> f x = Inr y)"
  by (cases m) (simp_all add: err_bind_def)

lemma err_bind_Inl [simp]: "err_bind (Inl e) f = Inl e"
  by (simp add: err_bind_def)

lemma err_bind_Inr_left [simp]: "err_bind (Inr x) f = f x"
  by (simp add: err_bind_def)

text \<open>Every pivot line of the result comes from a row, and carries the count of that row.\<close>

lemma decode_rows_emitted:
  assumes "decode_rows f i ls = Inr res" and "v \<in> set res"
  shows "\<exists>k<length ls. f (i + 1 + int k) (ls ! k) = Inr (Some v)"
  using assms
proof (induction ls arbitrary: i res)
  case Nil
  then show ?case by simp
next
  case (Cons l ls)
  from Cons.prems(1) obtain vals rest where
    h: "f (i + 1) l = Inr vals" "decode_rows f (i + 1) ls = Inr rest"
      "res = (case vals of None \<Rightarrow> rest | Some x \<Rightarrow> x # rest)"
    by auto
  show ?case
  proof (cases "v \<in> set rest")
    case True
    from Cons.IH[OF h(2) True] obtain k where
      k: "k < length ls" "f (i + 1 + 1 + int k) (ls ! k) = Inr (Some v)"
      by blast
    then have "Suc k < length (l # ls)" "f (i + 1 + int (Suc k)) ((l # ls) ! Suc k) = Inr (Some v)"
      by (simp_all add: algebra_simps)
    then show ?thesis by blast
  next
    case False
    with Cons.prems(2) h(3) have "vals = Some v"
      by (cases vals) auto
    with h(1) have "0 < length (l # ls)" "f (i + 1 + int 0) ((l # ls) ! 0) = Inr (Some v)"
      by simp_all
    then show ?thesis by blast
  qed
qed

text \<open>A row that is skipped leaves the rest of the decoding as it is.\<close>

lemma decode_rows_skip:
  "f (i + 1) l = Inr None \<Longrightarrow> decode_rows f i (l # ls) = decode_rows f (i + 1) ls"
  by (cases "decode_rows f (i + 1) ls") simp_all

lemma sign_amount_number:
  "number_of (sign_amount sign letter amount (PyBool False)) =
     Some (if py_eq sign (PyStr letter) then amount else 0)"
  "number_of (sign_amount sign letter amount (PyInt 0)) =
     Some (if py_eq sign (PyStr letter) then amount else 0)"
  by (simp_all add: sign_amount_def py_or_def py_and_def number_of_def)

lemma py_eq_char [simp]: "py_eq (PyStr [c]) (PyStr [d]) \<longleftrightarrow> c = d"
  by (simp add: py_eq_def)

subsection \<open>Quadra\<close>

lemma quadra_row_short: "length l < 54 \<Longrightarrow> quadra_row lib i l = Inr None"
  by (simp add: quadra_row_def)

lemma quadra_row_emitted:
  assumes "quadra_row lib i l = Inr (Some v)"
  shows "54 \<le> length l \<and> (l ! 41 = CHR ''C'' \<or> l ! 41 = CHR ''D'') \<and>
         (\<exists>cents. py_int lib (slice 42 55 l) = Inr cents \<and>
            v ''credit'' = Some (sign_amount (PyStr [l ! 41]) ''C'' (real_of_int cents / 100) (PyBool False)) \<and>
            v ''debit'' = Some (sign_amount (PyStr [l ! 41]) ''D'' (real_of_int cents / 100) (PyBool False))) \<and>
         v ''line'' = Some (PyInt i) \<and> v ''partner'' = None \<and> v ''analytic'' = None"
proof -
  from assms have len: "54 \<le> length l"
    and sign: "l ! 0 = CHR ''M'' \<and> (l ! 41 = CHR ''C'' \<or> l ! 41 = CHR ''D'')"
    by (auto simp: quadra_row_def split: if_splits)
  with assms obtain cents date where
    c: "py_int lib (slice 42 55 l) = Inr cents"
    and v: "v = [''journal'' \<mapsto> PyCode (PyStr (slice 9 11 l)),
           ''account'' \<mapsto> PyCode (PyStr (slice 1 9 l)),
           ''credit'' \<mapsto> sign_amount (PyStr [l ! 41]) ''C'' (real_of_int cents / 100) (PyBool False),
           ''debit'' \<mapsto> sign_amount (PyStr [l ! 41]) ''D'' (real_of_int cents / 100) (PyBool False),
           ''date'' \<mapsto> date,
           ''name'' \<mapsto> PyStr (slice 21 41 l),
           ''line'' \<mapsto> PyInt i]"
    by (auto simp: quadra_row_def Let_def split: if_splits)
  from v have "v ''credit'' = Some (sign_amount (PyStr [l ! 41]) ''C'' (real_of_int cents / 100) (PyBool False))"
    "v ''debit'' = Some (sign_amount (PyStr [l ! 41]) ''D'' (real_of_int cents / 100) (PyBool False))"
    "v ''line'' = Some (PyInt i)" "v ''partner'' = None" "v ''analytic'' = None"
    by simp_all
  with len sign c show ?thesis by blast
qed

text \<open>
  C7.  A row of fewer than 54 characters is skipped: the row gives no pivot line and
  raises nothing, and the decoding goes on with the next row.  Every pivot line of the
  result comes from a row of at least 54 characters whose character 41 is C or D; the
  integer read by \<^verbatim>\<open>int\<close> from the characters 42 to 54, divided by 100, is the
  value of \<^verbatim>\<open>credit\<close> for C and of \<^verbatim>\<open>debit\<close> for D, and the other side is
  \<^verbatim>\<open>False\<close>.  (An amount of zero is \<^verbatim>\<open>False\<close> as well, which counts as 0.)
\<close>

theorem quadra_short_skipped_amount_by_sign:
  "(length l < 54 \<longrightarrow>
      quadra_row lib i l = Inr None \<and>
      decode_rows (quadra_row lib) (i - 1) (l # ls) = decode_rows (quadra_row lib) i ls) \<and>
   (quadra2pivot lib content = Inr res \<longrightarrow>
      (\<forall>v\<in>set res. \<exists>k<length (split_on (CHR 0x0A) content). \<exists>cents.
          v ''line'' = Some (PyInt (int k + 1)) \<and>
          54 \<le> length (split_on (CHR 0x0A) content ! k) \<and>
          py_int lib (slice 42 55 (split_on (CHR 0x0A) content ! k)) = Inr cents \<and>
          (split_on (CHR 0x0A) content ! k ! 41 = CHR ''C'' \<or>
           split_on (CHR 0x0A) content ! k ! 41 = CHR ''D'') \<and>
          number_of (get v ''credit'') =
            Some (if split_on (CHR 0x0A) content ! k ! 41 = CHR ''C''
                  then real_of_int cents / 100 else 0) \<and>
          number_of (get v ''debit'') =
            Some (if split_on (CHR 0x0A) content ! k ! 41 = CHR ''D''
                  then real_of_int cents / 100 else 0) \<and>
          v ''credit'' =
            Some (if split_on (CHR 0x0A) content ! k ! 41 = CHR ''C'' \<and> cents \<noteq> 0
                  then PyFloat (real_of_int cents / 100) else PyBool False) \<and>
          v ''debit'' =
            Some (if split_on (CHR 0x0A) content ! k ! 41 = CHR ''D'' \<and> cents \<noteq> 0
                  then PyFloat (real_of_int cents / 100) else PyBool False)))"
proof (intro conjI impI ballI)
  assume "length l < 54"
  then show short: "quadra_row lib i l = Inr None"
    by (rule quadra_row_short)
  then show "decode_rows (quadra_row lib) (i - 1) (l # ls) = decode_rows (quadra_row lib) i ls"
    using decode_rows_skip[of "quadra_row lib" "i - 1" l ls] by simp
next
  fix v
  let ?rows = "split_on (CHR 0x0A) content"
  assume "quadra2pivot lib content = Inr res" and "v \<in> set res"
  then obtain k where k: "k < length ?rows"
    and e: "quadra_row lib (0 + 1 + int k) (?rows ! k) = Inr (Some v)"
    using decode_rows_emitted[of "quadra_row lib" 0 ?rows res v]
    by (auto simp: quadra2pivot_def)
  from quadra_row_emitted[OF e] obtain cents where
    f: "54 \<le> length (?rows ! k)" "?rows ! k ! 41 = CHR ''C'' \<or> ?rows ! k ! 41 = CHR ''D''"
      "py_int lib (slice 42 55 (?rows ! k)) = Inr cents"
      "v ''credit'' = Some (sign_amount (PyStr [?rows ! k ! 41]) ''C'' (real_of_int cents / 100) (PyBool False))"
      "v ''debit'' = Some (sign_amount (PyStr [?rows ! k ! 41]) ''D'' (real_of_int cents / 100) (PyBool False))"
      "v ''line'' = Some (PyInt (0 + 1 + int k))"
    by blast
  have n: "number_of (get v ''credit'') =
            Some (if ?rows ! k ! 41 = CHR ''C'' then real_of_int cents / 100 else 0)"
      "number_of (get v ''debit'') =
            Some (if ?rows ! k ! 41 = CHR ''D'' then real_of_int cents / 100 else 0)"
    using f(4,5) by (simp_all add: get_def get_or_none_def sign_amount_number)
  have x: "v ''credit'' =
            Some (if ?rows ! k ! 41 = CHR ''C'' \<and> cents \<noteq> 0
                  then PyFloat (real_of_int cents / 100) else PyBool False)"
     "v ''debit'' =
            Some (if ?rows ! k ! 41 = CHR ''D'' \<and> cents \<noteq> 0
                  then PyFloat (real_of_int cents / 100) else PyBool False)"
    using f(4,5) by (auto simp: sign_amount_def py_or_def py_and_def)
  from k f(1,2,3,6) n x
  show "\<exists>k<length ?rows. \<exists>cents.
          v ''line'' = Some (PyInt (int k + 1)) \<and>
          54 \<le> length (?rows ! k) \<and>
          py_int lib (slice 42 55 (?rows ! k)) = Inr cents \<and>
          (?rows ! k ! 41 = CHR ''C'' \<or> ?rows ! k ! 41 = CHR ''D'') \<and>
          number_of (get v ''credit'') =
            Some (if ?rows ! k ! 41 = CHR ''C'' then real_of_int cents / 100 else 0) \<and>
          number_of (get v ''debit'') =
            Some (if ?rows ! k ! 41 = CHR ''D'' then real_of_int cents / 100 else 0) \<and>
          v ''credit'' =
            Some (if ?rows ! k ! 41 = CHR ''C'' \<and> cents \<noteq> 0
                  then PyFloat (real_of_int cents / 100) else PyBool False) \<and>
          v ''debit'' =
            Some (if ?rows ! k ! 41 = CHR ''D'' \<and> cents \<noteq> 0
                  then PyFloat (real_of_int cents / 100) else PyBool False)"
    by (intro exI[of _ k] exI[of _ cents]) (simp add: add.commute)
qed

subsection \<open>What a decoded row holds\<close>

lemma item_get_eq: "item l k = Inr x \<Longrightarrow> item_get l k = x"
  by (auto simp: item_def item_get_def get_or_none_def split: option.splits)

lemma get_Some [simp]: "v k = Some x \<Longrightarrow> get v k = x"
  by (simp add: get_def get_or_none_def)

lemma get_None [simp]: "v k = None \<Longrightarrow> get v k = PyNone"
  by (simp add: get_def get_or_none_def)

lemma extenso_row_emitted:
  assumes "extenso_row lib i l = Inr (Some v)"
  shows "\<exists>c d. float_comma lib (py_or (item_get l ''credit'') (PyStr ''0'')) = Inr c \<and>
           float_comma lib (py_or (item_get l ''debit'') (PyStr ''0'')) = Inr d \<and>
           v ''credit'' = Some (PyFloat c) \<and> v ''debit'' = Some (PyFloat d) \<and>
           v ''partner'' = None \<and> v ''analytic'' = None"
proof -
  from assms obtain credit0 debit0 journal account c d date where
    i: "item l ''credit'' = Inr credit0" "item l ''debit'' = Inr debit0"
    and f: "float_comma lib (py_or credit0 (PyStr ''0'')) = Inr c"
      "float_comma lib (py_or debit0 (PyStr ''0'')) = Inr d"
    and v: "v = [''journal'' \<mapsto> PyCode journal, ''account'' \<mapsto> PyCode account,
        ''credit'' \<mapsto> PyFloat c, ''debit'' \<mapsto> PyFloat d, ''date'' \<mapsto> date,
        ''line'' \<mapsto> PyInt i]"
    by (auto simp: extenso_row_def Let_def)
  from v have "v ''credit'' = Some (PyFloat c)" "v ''debit'' = Some (PyFloat d)"
    "v ''partner'' = None" "v ''analytic'' = None"
    by simp_all
  with f item_get_eq[OF i(1)] item_get_eq[OF i(2)] show ?thesis by auto
qed

lemma fectxt_row_emitted:
  assumes "fectxt_row lib i l = Inr (Some v)"
  shows "\<exists>c d. float_comma lib (py_or (item_get l ''credit'') (PyStr ''0'')) = Inr c \<and>
           float_comma lib (py_or (item_get l ''debit'') (PyStr ''0'')) = Inr d \<and>
           v ''credit'' = Some (PyFloat c) \<and> v ''debit'' = Some (PyFloat d) \<and>
           v ''partner'' = None \<and> v ''analytic'' = None"
proof -
  from assms obtain credit0 debit0 journal account c d date name rr where
    i: "item l ''credit'' = Inr credit0" "item l ''debit'' = Inr debit0"
    and f: "float_comma lib (py_or credit0 (PyStr ''0'')) = Inr c"
      "float_comma lib (py_or debit0 (PyStr ''0'')) = Inr d"
    and v: "v = [''journal'' \<mapsto> PyCode journal, ''account'' \<mapsto> PyCode account,
        ''credit'' \<mapsto> PyFloat c, ''debit'' \<mapsto> PyFloat d, ''date'' \<mapsto> date,
        ''name'' \<mapsto> name, ''reconcile_ref'' \<mapsto> rr, ''line'' \<mapsto> PyInt i]"
    by (auto simp: fectxt_row_def Let_def split: if_splits)
  from v have "v ''credit'' = Some (PyFloat c)" "v ''debit'' = Some (PyFloat d)"
    "v ''partner'' = None" "v ''analytic'' = None"
    by simp_all
  with f item_get_eq[OF i(1)] item_get_eq[OF i(2)] show ?thesis by auto
qed

lemma genericcsv_row_emitted:
  assumes "genericcsv_row lib i l = Inr (Some v)"
  shows "\<exists>c d. float_of lib (py_or (item_get l ''credit'') (PyInt 0)) = Inr c \<and>
           float_of lib (py_or (item_get l ''debit'') (PyInt 0)) = Inr d \<and>
           v ''credit'' = Some (PyFloat c) \<and> v ''debit'' = Some (PyFloat d) \<and>
           v ''partner'' =
             (if truthy (item_get l ''partner'') then Some (PyRef (item_get l ''partner''))
              else None) \<and>
           v ''analytic'' =
             (if truthy (item_get l ''analytic'') then Some (PyCode (item_get l ''analytic''))
              else None)"
proof -
  from assms obtain credit0 debit0 journal account c d date name analytic partner where
    i: "item l ''credit'' = Inr credit0" "item l ''debit'' = Inr debit0"
      "item l ''analytic'' = Inr analytic" "item l ''partner'' = Inr partner"
    and f: "float_of lib (py_or credit0 (PyInt 0)) = Inr c"
      "float_of lib (py_or debit0 (PyInt 0)) = Inr d"
    and v: "v = set_if partner ''partner'' (PyRef partner)
       (set_if analytic ''analytic'' (PyCode analytic)
          [''journal'' \<mapsto> PyCode journal, ''account'' \<mapsto> PyCode account,
           ''credit'' \<mapsto> PyFloat c, ''debit'' \<mapsto> PyFloat d, ''date'' \<mapsto> date,
           ''name'' \<mapsto> name, ''line'' \<mapsto> PyInt i])"
    by (auto simp: genericcsv_row_def Let_def)
  from v have "v ''credit'' = Some (PyFloat c)" "v ''debit'' = Some (PyFloat d)"
    "v ''partner'' = (if truthy partner then Some (PyRef partner) else None)"
    "v ''analytic'' = (if truthy analytic then Some (PyCode analytic) else None)"
    by (simp_all add: set_if_def)
  with f item_get_eq[OF i(1)] item_get_eq[OF i(2)] item_get_eq[OF i(3)] item_get_eq[OF i(4)]
  show ?thesis by auto
qed

lemma cielpaye_row_emitted:
  assumes "cielpaye_row lib i l = Inr (Some v)"
  shows "\<exists>a. float_comma lib (item_get l ''amount'') = Inr a \<and>
           v ''credit'' = Some (sign_amount (item_get l ''sign'') ''C'' a (PyInt 0)) \<and>
           v ''debit'' = Some (sign_amount (item_get l ''sign'') ''D'' a (PyInt 0)) \<and>
           v ''partner'' = None \<and> v ''analytic'' = None"
proof -
  from assms obtain amount0 a journal account sign date name where
    i: "item l ''amount'' = Inr amount0" "item l ''sign'' = Inr sign"
    and f: "float_comma lib amount0 = Inr a"
    and v: "v = [''journal'' \<mapsto> PyCode journal, ''account'' \<mapsto> PyCode account,
           ''credit'' \<mapsto> sign_amount sign ''C'' a (PyInt 0),
           ''debit'' \<mapsto> sign_amount sign ''D'' a (PyInt 0),
           ''date'' \<mapsto> date, ''name'' \<mapsto> name, ''line'' \<mapsto> PyInt i]"
    by (auto simp: cielpaye_row_def Let_def split: if_splits)
  from v have "v ''credit'' = Some (sign_amount sign ''C'' a (PyInt 0))"
    "v ''debit'' = Some (sign_amount sign ''D'' a (PyInt 0))"
    "v ''partner'' = None" "v ''analytic'' = None"
    by simp_all
  with f item_get_eq[OF i(1)] item_get_eq[OF i(2)] show ?thesis by auto
qed

lemma nibelis_row_emitted:
  assumes "nibelis_row lib i l = Inr (Some v)"
  shows "\<exists>a. float_comma lib (item_get l ''amount'') = Inr a \<and>
           v ''credit'' = Some (sign_amount (item_get l ''sign'') ''C'' a (PyBool False)) \<and>
           v ''debit'' = Some (sign_amount (item_get l ''sign'') ''D'' a (PyBool False)) \<and>
           v ''partner'' = None \<and>
           v ''analytic'' =
             Some (if truthy (item_get l ''analytic'') then PyCode (item_get l ''analytic'')
                   else PyBool False)"
proof -
  from assms obtain amount0 a journal account sign date name where
    i: "item l ''amount'' = Inr amount0" "item l ''sign'' = Inr sign"
    and f: "float_comma lib amount0 = Inr a"
    and v: "v = [''journal'' \<mapsto> PyCode journal, ''account'' \<mapsto> PyCode account,
           ''analytic'' \<mapsto> py_or (py_and (item_get l ''analytic'')
                                   (PyCode (item_get l ''analytic''))) (PyBool False),
           ''credit'' \<mapsto> sign_amount sign ''C'' a (PyBool False),
           ''debit'' \<mapsto> sign_amount sign ''D'' a (PyBool False),
           ''date'' \<mapsto> date, ''name'' \<mapsto> name, ''line'' \<mapsto> PyInt i]"
    by (auto simp: nibelis_row_def Let_def split: if_splits)
  from v have "v ''credit'' = Some (sign_amount sign ''C'' a (PyBool False))"
    "v ''debit'' = Some (sign_amount sign ''D'' a (PyBool False))"
    "v ''partner'' = None"
    "v ''analytic'' = Some (if truthy (item_get l ''analytic'')
        then PyCode (item_get l ''analytic'') else PyBool False)"
    by (simp_all add: py_or_def py_and_def)
  with f item_get_eq[OF i(1)] item_get_eq[OF i(2)] show ?thesis by auto
qed

lemma payfit_row_emitted:
  assumes "payfit_row lib i row = Inr (Some v)"
  shows "6 < length row \<and>
         (\<exists>c d. float_of lib (py_or (row ! 6) (PyFloat 0)) = Inr c \<and>
           float_of lib (py_or (row ! 5) (PyFloat 0)) = Inr d \<and>
           v ''credit'' = Some (PyFloat c) \<and> v ''debit'' = Some (PyFloat d)) \<and>
         v ''partner'' = None \<and>
         v ''analytic'' =
           (if str_of lib (row ! 3) \<noteq> [] then Some (PyCode (PyStr (str_of lib (row ! 3))))
            else None)"
proof -
  from assms obtain account c d where
    len: "6 < length row"
    and f: "float_of lib (py_or (row ! 6) (PyFloat 0)) = Inr c"
      "float_of lib (py_or (row ! 5) (PyFloat 0)) = Inr d"
    and v: "v = set_if (PyStr (str_of lib (row ! 3))) ''analytic''
                 (PyCode (PyStr (str_of lib (row ! 3))))
                      [''account'' \<mapsto> PyCode (PyStr account),
                       ''name'' \<mapsto> PyStr ''Paye'',
                       ''debit'' \<mapsto> PyFloat d,
                       ''credit'' \<mapsto> PyFloat c,
                       ''line'' \<mapsto> PyInt i]"
    by (auto simp: payfit_row_def Let_def cell_def split: if_splits list.splits)
  from v have "v ''credit'' = Some (PyFloat c)" "v ''debit'' = Some (PyFloat d)"
    "v ''partner'' = None"
    "v ''analytic'' = (if str_of lib (row ! 3) \<noteq> []
        then Some (PyCode (PyStr (str_of lib (row ! 3)))) else None)"
    by (simp_all add: set_if_def)
  with len f show ?thesis by auto
qed

subsection \<open>The decoders on the example rows\<close>

lemmas lib_eval =
  plain_lib_def plain_int_def plain_float_def plain_strptime_def signed_def unsigned_int_def
  unsigned_float_def digit_of_def isdigit_def field_value_def days_in_month_def strptime_of_def
  float_comma_def float_of_def replace_char_def

lemmas row_eval =
  dict_reader_row_def item_def item_get_def get_or_none_def sign_amount_def py_or_def
  py_and_def py_eq_def set_if_def

lemma example_quadra_row_parts:
  "length example_quadra_row = 55"
  "example_quadra_row ! 0 = CHR ''M''"
  "example_quadra_row ! 41 = CHR ''D''"
  "slice 42 55 example_quadra_row = ''0000000012000''"
  "slice 14 20 example_quadra_row = ''150217''"
  "slice 21 41 example_quadra_row = ''Invoice 0001        ''"
  "slice 9 11 example_quadra_row = ''VT''"
  "slice (Suc 0) 9 example_quadra_row = ''41100000''"
  by (simp_all add: example_quadra_row_def slice_def)

lemma example_parsed:
  "plain_int ''0000000012000'' = Inr 12000"
  "plain_strptime ''150217'' ''%d%m%y'' = Inr (YMD 2017 2 15)"
  "plain_strptime ''15022017'' ''%d%m%Y'' = Inr (YMD 2017 2 15)"
  "plain_strptime ''15/02/2017'' ''%d/%m/%Y'' = Inr (YMD 2017 2 15)"
  "plain_strptime ''20170215'' ''%Y%m%d'' = Inr (YMD 2017 2 15)"
  "plain_strptime ''170215'' ''%y%m%d'' = Inr (YMD 2017 2 15)"
  "plain_float ''0'' = Inr 0"
  "plain_float ''0.00'' = Inr 0"
  "plain_float ''120.00'' = Inr 120"
  "plain_float ''1500.00'' = Inr 1500"
  "plain_float ''-5.00'' = Inr (- 5)"
  by (simp_all add: lib_eval)

lemmas parse_eval =
  plain_lib_def strptime_of_def float_comma_def float_of_def replace_char_def example_parsed

lemma quadra_row_example:
  "quadra_row plain_lib 2 example_quadra_row =
     Inr (Some
       [''journal'' \<mapsto> PyCode (PyStr ''VT''),
        ''account'' \<mapsto> PyCode (PyStr ''41100000''),
        ''credit'' \<mapsto> PyBool False,
        ''debit'' \<mapsto> PyFloat 120,
        ''date'' \<mapsto> PyDatetime (YMD 2017 2 15),
        ''name'' \<mapsto> PyStr ''Invoice 0001        '',
        ''line'' \<mapsto> PyInt 2])"
  by (simp add: quadra_row_def example_quadra_row_parts example_parsed plain_lib_def
        strptime_of_def sign_amount_def py_and_def py_or_def py_eq_def)

lemma extenso_row_example:
  "extenso_row plain_lib 1 (dict_reader_row extenso_fieldnames example_extenso) =
     Inr (Some
       [''journal'' \<mapsto> PyCode (PyStr ''VT''),
        ''account'' \<mapsto> PyCode (PyStr ''411000''),
        ''credit'' \<mapsto> PyFloat 0,
        ''debit'' \<mapsto> PyFloat 120,
        ''date'' \<mapsto> PyDatetime (YMD 2017 2 15),
        ''line'' \<mapsto> PyInt 1])"
  by (simp add: extenso_row_def extenso_fieldnames_def example_extenso_def row_eval parse_eval)

lemma extenso_row_example_negative:
  "extenso_row plain_lib 1 (dict_reader_row extenso_fieldnames example_extenso_negative) =
     Inr (Some
       [''journal'' \<mapsto> PyCode (PyStr ''VT''),
        ''account'' \<mapsto> PyCode (PyStr ''411000''),
        ''credit'' \<mapsto> PyFloat (- 5),
        ''debit'' \<mapsto> PyFloat 0,
        ''date'' \<mapsto> PyDatetime (YMD 2017 2 15),
        ''line'' \<mapsto> PyInt 1])"
  by (simp add: extenso_row_def extenso_fieldnames_def example_extenso_negative_def row_eval
        parse_eval)

lemma cielpaye_row_example:
  "cielpaye_row plain_lib 1 (dict_reader_row cielpaye_fieldnames example_cielpaye) =
     Inr (Some
       [''journal'' \<mapsto> PyCode (PyStr ''OD''),
        ''account'' \<mapsto> PyCode (PyStr ''421000''),
        ''credit'' \<mapsto> PyFloat 1500,
        ''debit'' \<mapsto> PyInt 0,
        ''date'' \<mapsto> PyDatetime (YMD 2017 2 15),
        ''name'' \<mapsto> PyStr ''Salaires'',
        ''line'' \<mapsto> PyInt 1])"
  by (simp add: cielpaye_row_def cielpaye_fieldnames_def example_cielpaye_def row_eval parse_eval)

lemma fectxt_row_example:
  "fectxt_row plain_lib 2 (dict_reader_row fectxt_fieldnames example_fectxt) =
     Inr (Some
       [''journal'' \<mapsto> PyCode (PyStr ''VT''),
        ''account'' \<mapsto> PyCode (PyStr ''411000''),
        ''credit'' \<mapsto> PyFloat 0,
        ''debit'' \<mapsto> PyFloat 120,
        ''date'' \<mapsto> PyDatetime (YMD 2017 2 15),
        ''name'' \<mapsto> PyStr ''Facture 1'',
        ''reconcile_ref'' \<mapsto> PyStr ''A1242'',
        ''line'' \<mapsto> PyInt 2])"
  by (simp add: fectxt_row_def fectxt_fieldnames_def example_fectxt_def row_eval parse_eval)

lemma genericcsv_row_example:
  "genericcsv_row plain_lib 1 (dict_reader_row genericcsv_fieldnames example_genericcsv) =
     Inr (Some
       [''journal'' \<mapsto> PyCode (PyStr ''VT''),
        ''account'' \<mapsto> PyCode (PyStr ''411000''),
        ''credit'' \<mapsto> PyFloat 0,
        ''debit'' \<mapsto> PyFloat 120,
        ''date'' \<mapsto> PyDatetime (YMD 2017 2 15),
        ''name'' \<mapsto> PyStr ''Invoice'',
        ''line'' \<mapsto> PyInt 1])"
  by (simp add: genericcsv_row_def genericcsv_fieldnames_def example_genericcsv_def row_eval
        parse_eval)

lemma nibelis_row_example:
  "nibelis_row plain_lib 2 (dict_reader_row nibelis_fieldnames example_nibelis) =
     Inr (Some
       [''journal'' \<mapsto> PyCode (PyStr ''OD''),
        ''account'' \<mapsto> PyCode (PyStr ''421000''),
        ''analytic'' \<mapsto> PyBool False,
        ''credit'' \<mapsto> PyFloat 1500,
        ''debit'' \<mapsto> PyBool False,
        ''date'' \<mapsto> PyDatetime (YMD 2017 2 15),
        ''name'' \<mapsto> PyStr ''Salaires'',
        ''line'' \<mapsto> PyInt 2])"
  by (simp add: nibelis_row_def nibelis_fieldnames_def example_nibelis_def row_eval parse_eval)

lemma plain_str_example: "plain_str (PyFloat 421000) = ''421000.0''"
  by (simp add: plain_str_def show_int_def show_nat.simps digit_char_def)

lemma payfit_row_example:
  "payfit_row plain_lib 2 example_payfit =
     Inr (Some
       [''account'' \<mapsto> PyCode (PyStr ''421000''),
        ''name'' \<mapsto> PyStr ''Paye'',
        ''debit'' \<mapsto> PyFloat 1500,
        ''credit'' \<mapsto> PyFloat 0,
        ''line'' \<mapsto> PyInt 2])"
  by (simp add: payfit_row_def example_payfit_def cell_def str_of_def plain_lib_def
        plain_str_example isdigit_def float_of_def py_or_def set_if_def)

subsection \<open>Quadra on an example file\<close>

lemma split_on_nonempty: "split_on c s \<noteq> []"
  by (induction s) (auto split: list.splits)

lemma split_on_no_separator: "c \<notin> set s \<Longrightarrow> split_on c s = [s]"
  by (induction s) auto

lemma split_on_append:
  "c \<notin> set xs \<Longrightarrow> split_on c (xs @ c # ys) = xs # split_on c ys"
  by (induction xs) (auto split: list.splits)

lemma example_quadra_file_rows:
  "split_on (CHR 0x0A) (''M short row'' @ CHR 0x0A # example_quadra_row) =
     [''M short row'', example_quadra_row]"
proof -
  have "CHR 0x0A \<notin> set example_quadra_row"
    by (simp add: example_quadra_row_def)
  then have r: "split_on (CHR 0x0A) example_quadra_row = [example_quadra_row]"
    by (rule split_on_no_separator)
  have "CHR 0x0A \<notin> set ''M short row''" by simp
  from split_on_append[OF this, of example_quadra_row] r show ?thesis
    by (simp only:)
qed

theorem quadra_short_skipped_amount_by_sign_witness:
  "length ''M short row'' < 54 \<and>
   quadra2pivot plain_lib (''M short row'' @ CHR 0x0A # example_quadra_row) =
     Inr [[''journal'' \<mapsto> PyCode (PyStr ''VT''),
           ''account'' \<mapsto> PyCode (PyStr ''41100000''),
           ''credit'' \<mapsto> PyBool False,
           ''debit'' \<mapsto> PyFloat 120,
           ''date'' \<mapsto> PyDatetime (YMD 2017 2 15),
           ''name'' \<mapsto> PyStr ''Invoice 0001        '',
           ''line'' \<mapsto> PyInt 2]] \<and>
   (\<exists>k cents.
      py_int plain_lib
        (slice 42 55
           (split_on (CHR 0x0A) (''M short row'' @ CHR 0x0A # example_quadra_row) ! k)) =
        Inr cents \<and>
      split_on (CHR 0x0A) (''M short row'' @ CHR 0x0A # example_quadra_row) ! k ! 41 = CHR ''D'' \<and>
      Some (120 :: real) = Some (real_of_int cents / 100))"
proof -
  let ?content = "''M short row'' @ CHR 0x0A # example_quadra_row"
  let ?rows = "split_on (CHR 0x0A) ?content"
  let ?v = "[''journal'' \<mapsto> PyCode (PyStr ''VT''),
           ''account'' \<mapsto> PyCode (PyStr ''41100000''),
           ''credit'' \<mapsto> PyBool False,
           ''debit'' \<mapsto> PyFloat 120,
           ''date'' \<mapsto> PyDatetime (YMD 2017 2 15),
           ''name'' \<mapsto> PyStr ''Invoice 0001        '',
           ''line'' \<mapsto> PyInt 2]"
  have short: "length ''M short row'' < 54" by simp
  note th = quadra_short_skipped_amount_by_sign[of "''M short row''" plain_lib 1
      "[example_quadra_row]" ?content "[?v]"]
  from th short have skip:
    "decode_rows (quadra_row plain_lib) (1 - 1) [''M short row'', example_quadra_row] =
       decode_rows (quadra_row plain_lib) 1 [example_quadra_row]"
    by blast
  have run: "quadra2pivot plain_lib ?content = Inr [?v]"
    unfolding quadra2pivot_def example_quadra_file_rows
    using skip by (simp add: quadra_row_example)
  have mem: "?v \<in> set [?v]" by simp
  from th[THEN conjunct2, rule_format, OF run mem] obtain k cents where
    ln: "?v ''line'' = Some (PyInt (int k + 1))"
    and c: "py_int plain_lib (slice 42 55 (?rows ! k)) = Inr cents"
    and d: "number_of (get ?v ''debit'') =
          Some (if ?rows ! k ! 41 = CHR ''D'' then real_of_int cents / 100 else 0)"
    by blast
  from ln have k1: "k = 1" by simp
  have sign: "?rows ! k ! 41 = CHR ''D''"
    unfolding example_quadra_file_rows k1 by (simp add: example_quadra_row_parts)
  from d sign have "Some (120 :: real) = Some (real_of_int cents / 100)"
    by (simp add: number_of_def get_def get_or_none_def)
  with short run c sign show ?thesis by blast
qed

subsection \<open>Sign of the decoded amounts\<close>

lemma decode_single:
  "f 1 l = Inr (Some v) \<Longrightarrow> decode_rows f 0 [l] = Inr [v]"
  by simp

lemma decode_after_header:
  "f 1 h = Inr None \<Longrightarrow> f 2 l = Inr (Some v) \<Longrightarrow> decode_rows f 0 [h, l] = Inr [v]"
  by simp

text \<open>
  C8.  The claim: for every pivot line produced by any decoder, debit and credit are
  never negative.  No decoder tests the sign of what it reads.  Amended: debit and
  credit are the numbers that \<^verbatim>\<open>float\<close> (for Quadra \<^verbatim>\<open>int\<close>, divided by 100)
  reads from the amount fields of the row, with their sign: for In Extenso, FEC,
  Generic CSV and Payfit the values of the credit and debit columns (a blank one read
  as 0); for Ciel Paye, Nibelis and Quadra the amount on the side that the sign letter
  names, and zero (\<^verbatim>\<open>0\<close> or \<^verbatim>\<open>False\<close>) on the other.  So they are negative
  exactly when the amount read from the file is.
\<close>

theorem decoded_amounts_keep_sign:
  "(extenso_row lib i l = Inr (Some v) \<longrightarrow>
      (\<exists>c d. float_comma lib (py_or (item_get l ''credit'') (PyStr ''0'')) = Inr c \<and>
             float_comma lib (py_or (item_get l ''debit'') (PyStr ''0'')) = Inr d \<and>
             get v ''credit'' = PyFloat c \<and> get v ''debit'' = PyFloat d)) \<and>
   (fectxt_row lib i l = Inr (Some v) \<longrightarrow>
      (\<exists>c d. float_comma lib (py_or (item_get l ''credit'') (PyStr ''0'')) = Inr c \<and>
             float_comma lib (py_or (item_get l ''debit'') (PyStr ''0'')) = Inr d \<and>
             get v ''credit'' = PyFloat c \<and> get v ''debit'' = PyFloat d)) \<and>
   (genericcsv_row lib i l = Inr (Some v) \<longrightarrow>
      (\<exists>c d. float_of lib (py_or (item_get l ''credit'') (PyInt 0)) = Inr c \<and>
             float_of lib (py_or (item_get l ''debit'') (PyInt 0)) = Inr d \<and>
             get v ''credit'' = PyFloat c \<and> get v ''debit'' = PyFloat d)) \<and>
   (payfit_row lib i row = Inr (Some v) \<longrightarrow>
      (\<exists>c d. float_of lib (py_or (row ! 6) (PyFloat 0)) = Inr c \<and>
             float_of lib (py_or (row ! 5) (PyFloat 0)) = Inr d \<and>
             get v ''credit'' = PyFloat c \<and> get v ''debit'' = PyFloat d)) \<and>
   (cielpaye_row lib i l = Inr (Some v) \<longrightarrow>
      (\<exists>a. float_comma lib (item_get l ''amount'') = Inr a \<and>
           number_of (get v ''credit'') =
             Some (if py_eq (item_get l ''sign'') (PyStr ''C'') then a else 0) \<and>
           number_of (get v ''debit'') =
             Some (if py_eq (item_get l ''sign'') (PyStr ''D'') then a else 0))) \<and>
   (nibelis_row lib i l = Inr (Some v) \<longrightarrow>
      (\<exists>a. float_comma lib (item_get l ''amount'') = Inr a \<and>
           number_of (get v ''credit'') =
             Some (if py_eq (item_get l ''sign'') (PyStr ''C'') then a else 0) \<and>
           number_of (get v ''debit'') =
             Some (if py_eq (item_get l ''sign'') (PyStr ''D'') then a else 0))) \<and>
   (quadra_row lib i s = Inr (Some v) \<longrightarrow>
      (\<exists>cents. py_int lib (slice 42 55 s) = Inr cents \<and>
           number_of (get v ''credit'') =
             Some (if s ! 41 = CHR ''C'' then real_of_int cents / 100 else 0) \<and>
           number_of (get v ''debit'') =
             Some (if s ! 41 = CHR ''D'' then real_of_int cents / 100 else 0)))"
proof (intro conjI impI)
  assume "extenso_row lib i l = Inr (Some v)"
  from extenso_row_emitted[OF this]
  show "\<exists>c d. float_comma lib (py_or (item_get l ''credit'') (PyStr ''0'')) = Inr c \<and>
             float_comma lib (py_or (item_get l ''debit'') (PyStr ''0'')) = Inr d \<and>
             get v ''credit'' = PyFloat c \<and> get v ''debit'' = PyFloat d"
    by auto
next
  assume "fectxt_row lib i l = Inr (Some v)"
  from fectxt_row_emitted[OF this]
  show "\<exists>c d. float_comma lib (py_or (item_get l ''credit'') (PyStr ''0'')) = Inr c \<and>
             float_comma lib (py_or (item_get l ''debit'') (PyStr ''0'')) = Inr d \<and>
             get v ''credit'' = PyFloat c \<and> get v ''debit'' = PyFloat d"
    by auto
next
  assume "genericcsv_row lib i l = Inr (Some v)"
  from genericcsv_row_emitted[OF this]
  show "\<exists>c d. float_of lib (py_or (item_get l ''credit'') (PyInt 0)) = Inr c \<and>
             float_of lib (py_or (item_get l ''debit'') (PyInt 0)) = Inr d \<and>
             get v ''credit'' = PyFloat c \<and> get v ''debit'' = PyFloat d"
    by auto
next
  assume "payfit_row lib i row = Inr (Some v)"
  from payfit_row_emitted[OF this]
  show "\<exists>c d. float_of lib (py_or (row ! 6) (PyFloat 0)) = Inr c \<and>
             float_of lib (py_or (row ! 5) (PyFloat 0)) = Inr d \<and>
             get v ''credit'' = PyFloat c \<and> get v ''debit'' = PyFloat d"
    by auto
next
  assume "cielpaye_row lib i l = Inr (Some v)"
  from cielpaye_row_emitted[OF this]
  show "\<exists>a. float_comma lib (item_get l ''amount'') = Inr a \<and>
           number_of (get v ''credit'') =
             Some (if py_eq (item_get l ''sign'') (PyStr ''C'') then a else 0) \<and>
           number_of (get v ''debit'') =
             Some (if py_eq (item_get l ''sign'') (PyStr ''D'') then a else 0)"
    by (auto simp: sign_amount_number)
next
  assume "nibelis_row lib i l = Inr (Some v)"
  from nibelis_row_emitted[OF this]
  show "\<exists>a. float_comma lib (item_get l ''amount'') = Inr a \<and>
           number_of (get v ''credit'') =
             Some (if py_eq (item_get l ''sign'') (PyStr ''C'') then a else 0) \<and>
           number_of (get v ''debit'') =
             Some (if py_eq (item_get l ''sign'') (PyStr ''D'') then a else 0)"
    by (auto simp: sign_amount_number)
next
  assume "quadra_row lib i s = Inr (Some v)"
  from quadra_row_emitted[OF this]
  show "\<exists>cents. py_int lib (slice 42 55 s) = Inr cents \<and>
           number_of (get v ''credit'') =
             Some (if s ! 41 = CHR ''C'' then real_of_int cents / 100 else 0) \<and>
           number_of (get v ''debit'') =
             Some (if s ! 41 = CHR ''D'' then real_of_int cents / 100 else 0)"
    by (auto simp: sign_amount_number)
qed

text \<open>
  The claim fails on an In Extenso record whose credit column holds \<^verbatim>\<open>-5,00\<close>: the
  pivot line has a credit of -5.0.
\<close>

theorem negative_credit_counterexample:
  "extenso2pivot plain_lib [example_extenso_negative] =
     Inr [[''journal'' \<mapsto> PyCode (PyStr ''VT''),
           ''account'' \<mapsto> PyCode (PyStr ''411000''),
           ''credit'' \<mapsto> PyFloat (- 5),
           ''debit'' \<mapsto> PyFloat 0,
           ''date'' \<mapsto> PyDatetime (YMD 2017 2 15),
           ''line'' \<mapsto> PyInt 1]] \<and>
   number_of (PyFloat (- 5)) = Some (- 5) \<and> (- 5 :: real) < 0"
proof -
  have "example_extenso_negative \<noteq> []"
    by (simp add: example_extenso_negative_def)
  then have "dict_reader extenso_fieldnames [example_extenso_negative] =
      [dict_reader_row extenso_fieldnames example_extenso_negative]"
    by (simp add: dict_reader_def)
  then show ?thesis
    unfolding extenso2pivot_def
    by (simp add: decode_single[of "extenso_row plain_lib", OF extenso_row_example_negative] number_of_def
          del: decode_rows.simps)
qed

theorem decoded_amounts_keep_sign_witness:
  "(\<exists>v. extenso_row plain_lib 1 (dict_reader_row extenso_fieldnames example_extenso) = Inr (Some v) \<and>
      get v ''credit'' = PyFloat 0 \<and> get v ''debit'' = PyFloat 120) \<and>
   (\<exists>v. fectxt_row plain_lib 2 (dict_reader_row fectxt_fieldnames example_fectxt) = Inr (Some v) \<and>
      get v ''credit'' = PyFloat 0 \<and> get v ''debit'' = PyFloat 120) \<and>
   (\<exists>v. genericcsv_row plain_lib 1 (dict_reader_row genericcsv_fieldnames example_genericcsv) = Inr (Some v) \<and>
      get v ''credit'' = PyFloat 0 \<and> get v ''debit'' = PyFloat 120) \<and>
   (\<exists>v. payfit_row plain_lib 2 example_payfit = Inr (Some v) \<and>
      get v ''credit'' = PyFloat 0 \<and> get v ''debit'' = PyFloat 1500) \<and>
   (\<exists>v. cielpaye_row plain_lib 1 (dict_reader_row cielpaye_fieldnames example_cielpaye) = Inr (Some v) \<and>
      number_of (get v ''credit'') = Some 1500 \<and> number_of (get v ''debit'') = Some 0) \<and>
   (\<exists>v. nibelis_row plain_lib 2 (dict_reader_row nibelis_fieldnames example_nibelis) = Inr (Some v) \<and>
      number_of (get v ''credit'') = Some 1500 \<and> number_of (get v ''debit'') = Some 0) \<and>
   (\<exists>v. quadra_row plain_lib 2 example_quadra_row = Inr (Some v) \<and>
      number_of (get v ''credit'') = Some 0 \<and> number_of (get v ''debit'') = Some 120)"
proof -
  let ?v0 = "[''journal'' \<mapsto> PyCode (PyStr ''VT''),
     ''account'' \<mapsto> PyCode (PyStr ''411000''),
     ''credit'' \<mapsto> PyFloat 0,
     ''debit'' \<mapsto> PyFloat 120,
     ''date'' \<mapsto> PyDatetime (YMD 2017 2 15),
     ''line'' \<mapsto> PyInt 1]"
  from decoded_amounts_keep_sign[where lib = plain_lib and i = 1 and l = "(dict_reader_row extenso_fieldnames example_extenso)" and v = ?v0]
    extenso_row_example
  obtain c0 d0 where "get ?v0 ''credit'' = PyFloat c0" "get ?v0 ''debit'' = PyFloat d0"
    by blast
  then have "get ?v0 ''credit'' = PyFloat 0 \<and> get ?v0 ''debit'' = PyFloat 120"
    by simp
  with extenso_row_example have w0: "\<exists>v. extenso_row plain_lib 1 (dict_reader_row extenso_fieldnames example_extenso) = Inr (Some v) \<and>
      get v ''credit'' = PyFloat 0 \<and> get v ''debit'' = PyFloat 120"
    by blast
  let ?v1 = "[''journal'' \<mapsto> PyCode (PyStr ''VT''),
     ''account'' \<mapsto> PyCode (PyStr ''411000''),
     ''credit'' \<mapsto> PyFloat 0,
     ''debit'' \<mapsto> PyFloat 120,
     ''date'' \<mapsto> PyDatetime (YMD 2017 2 15),
     ''name'' \<mapsto> PyStr ''Facture 1'',
     ''reconcile_ref'' \<mapsto> PyStr ''A1242'',
     ''line'' \<mapsto> PyInt 2]"
  from decoded_amounts_keep_sign[where lib = plain_lib and i = 2 and l = "(dict_reader_row fectxt_fieldnames example_fectxt)" and v = ?v1]
    fectxt_row_example
  obtain c1 d1 where "get ?v1 ''credit'' = PyFloat c1" "get ?v1 ''debit'' = PyFloat d1"
    by blast
  then have "get ?v1 ''credit'' = PyFloat 0 \<and> get ?v1 ''debit'' = PyFloat 120"
    by simp
  with fectxt_row_example have w1: "\<exists>v. fectxt_row plain_lib 2 (dict_reader_row fectxt_fieldnames example_fectxt) = Inr (Some v) \<and>
      get v ''credit'' = PyFloat 0 \<and> get v ''debit'' = PyFloat 120"
    by blast
  let ?v2 = "[''journal'' \<mapsto> PyCode (PyStr ''VT''),
     ''account'' \<mapsto> PyCode (PyStr ''411000''),
     ''credit'' \<mapsto> PyFloat 0,
     ''debit'' \<mapsto> PyFloat 120,
     ''date'' \<mapsto> PyDatetime (YMD 2017 2 15),
     ''name'' \<mapsto> PyStr ''Invoice'',
     ''line'' \<mapsto> PyInt 1]"
  from decoded_amounts_keep_sign[where lib = plain_lib and i = 1 and l = "(dict_reader_row genericcsv_fieldnames example_genericcsv)" and v = ?v2]
    genericcsv_row_example
  obtain c2 d2 where "get ?v2 ''credit'' = PyFloat c2" "get ?v2 ''debit'' = PyFloat d2"
    by blast
  then have "get ?v2 ''credit'' = PyFloat 0 \<and> get ?v2 ''debit'' = PyFloat 120"
    by simp
  with genericcsv_row_example have w2: "\<exists>v. genericcsv_row plain_lib 1 (dict_reader_row genericcsv_fieldnames example_genericcsv) = Inr (Some v) \<and>
      get v ''credit'' = PyFloat 0 \<and> get v ''debit'' = PyFloat 120"
    by blast
  let ?v3 = "[''account'' \<mapsto> PyCode (PyStr ''421000''),
     ''name'' \<mapsto> PyStr ''Paye'',
     ''debit'' \<mapsto> PyFloat 1500,
     ''credit'' \<mapsto> PyFloat 0,
     ''line'' \<mapsto> PyInt 2]"
  from decoded_amounts_keep_sign[where lib = plain_lib and i = 2 and row = "example_payfit" and v = ?v3]
    payfit_row_example
  obtain c3 d3 where "get ?v3 ''credit'' = PyFloat c3" "get ?v3 ''debit'' = PyFloat d3"
    by blast
  then have "get ?v3 ''credit'' = PyFloat 0 \<and> get ?v3 ''debit'' = PyFloat 1500"
    by simp
  with payfit_row_example have w3: "\<exists>v. payfit_row plain_lib 2 example_payfit = Inr (Some v) \<and>
      get v ''credit'' = PyFloat 0 \<and> get v ''debit'' = PyFloat 1500"
    by blast
  let ?v4 = "[''journal'' \<mapsto> PyCode (PyStr ''OD''),
     ''account'' \<mapsto> PyCode (PyStr ''421000''),
     ''credit'' \<mapsto> PyFloat 1500,
     ''debit'' \<mapsto> PyInt 0,
     ''date'' \<mapsto> PyDatetime (YMD 2017 2 15),
     ''name'' \<mapsto> PyStr ''Salaires'',
     ''line'' \<mapsto> PyInt 1]"
  from decoded_amounts_keep_sign[where lib = plain_lib and i = 1 and l = "(dict_reader_row cielpaye_fieldnames example_cielpaye)" and v = ?v4]
    cielpaye_row_example
  obtain a4 where "number_of (get ?v4 ''credit'') \<noteq> None" "number_of (get ?v4 ''debit'') \<noteq> None"
    by blast
  then have "number_of (get ?v4 ''credit'') = Some 1500 \<and> number_of (get ?v4 ''debit'') = Some 0"
    by (simp add: number_of_def)
  with cielpaye_row_example have w4: "\<exists>v. cielpaye_row plain_lib 1 (dict_reader_row cielpaye_fieldnames example_cielpaye) = Inr (Some v) \<and>
      number_of (get v ''credit'') = Some 1500 \<and> number_of (get v ''debit'') = Some 0"
    by blast
  let ?v5 = "[''journal'' \<mapsto> PyCode (PyStr ''OD''),
     ''account'' \<mapsto> PyCode (PyStr ''421000''),
     ''analytic'' \<mapsto> PyBool False,
     ''credit'' \<mapsto> PyFloat 1500,
     ''debit'' \<mapsto> PyBool False,
     ''date'' \<mapsto> PyDatetime (YMD 2017 2 15),
     ''name'' \<mapsto> PyStr ''Salaires'',
     ''line'' \<mapsto> PyInt 2]"
  from decoded_amounts_keep_sign[where lib = plain_lib and i = 2 and l = "(dict_reader_row nibelis_fieldnames example_nibelis)" and v = ?v5]
    nibelis_row_example
  obtain a5 where "number_of (get ?v5 ''credit'') \<noteq> None" "number_of (get ?v5 ''debit'') \<noteq> None"
    by blast
  then have "number_of (get ?v5 ''credit'') = Some 1500 \<and> number_of (get ?v5 ''debit'') = Some 0"
    by (simp add: number_of_def)
  with nibelis_row_example have w5: "\<exists>v. nibelis_row plain_lib 2 (dict_reader_row nibelis_fieldnames example_nibelis) = Inr (Some v) \<and>
      number_of (get v ''credit'') = Some 1500 \<and> number_of (get v ''debit'') = Some 0"
    by blast
  let ?v6 = "[''journal'' \<mapsto> PyCode (PyStr ''VT''),
     ''account'' \<mapsto> PyCode (PyStr ''41100000''),
     ''credit'' \<mapsto> PyBool False,
     ''debit'' \<mapsto> PyFloat 120,
     ''date'' \<mapsto> PyDatetime (YMD 2017 2 15),
     ''name'' \<mapsto> PyStr ''Invoice 0001        '',
     ''line'' \<mapsto> PyInt 2]"
  from decoded_amounts_keep_sign[where lib = plain_lib and i = 2 and s = "example_quadra_row" and v = ?v6]
    quadra_row_example
  obtain a6 where "number_of (get ?v6 ''credit'') \<noteq> None" "number_of (get ?v6 ''debit'') \<noteq> None"
    by blast
  then have "number_of (get ?v6 ''credit'') = Some 0 \<and> number_of (get ?v6 ''debit'') = Some 120"
    by (simp add: number_of_def)
  with quadra_row_example have w6: "\<exists>v. quadra_row plain_lib 2 example_quadra_row = Inr (Some v) \<and>
      number_of (get v ''credit'') = Some 0 \<and> number_of (get v ''debit'') = Some 120"
    by blast
  from w0 w1 w2 w3 w4 w5 w6 show ?thesis by blast
qed

subsection \<open>Blank partner and analytic columns\<close>

lemma row_references_wellformed:
  "extenso_row lib i l = Inr (Some v) \<Longrightarrow> references_wellformed v"
  "cielpaye_row lib i l = Inr (Some v) \<Longrightarrow> references_wellformed v"
  "fectxt_row lib i l = Inr (Some v) \<Longrightarrow> references_wellformed v"
  "genericcsv_row lib i l = Inr (Some v) \<Longrightarrow> references_wellformed v"
  "nibelis_row lib i l = Inr (Some v) \<Longrightarrow> references_wellformed v"
  "quadra_row lib i s = Inr (Some v) \<Longrightarrow> references_wellformed v"
  "payfit_row lib i row = Inr (Some v) \<Longrightarrow> references_wellformed v"
  using extenso_row_emitted[of lib i l v] cielpaye_row_emitted[of lib i l v]
    fectxt_row_emitted[of lib i l v] genericcsv_row_emitted[of lib i l v]
    nibelis_row_emitted[of lib i l v] quadra_row_emitted[of lib i s v]
    payfit_row_emitted[of lib i row v]
  by (auto simp: references_wellformed_def)

lemma decoded_references_wellformed:
  assumes "decode_rows f i ls = Inr res" and "v \<in> set res"
    and "\<And>j l. f j l = Inr (Some v) \<Longrightarrow> references_wellformed v"
  shows "references_wellformed v"
  using decode_rows_emitted[OF assms(1,2)] assms(3) by blast

lemma file2pivot_references_wellformed:
  assumes "file2pivot lib file_format separator f = Inr res" and "v \<in> set res"
  shows "references_wellformed v"
proof -
  from assms(1) consider
      "nibelis2pivot lib (csv_rows f) = Inr res"
    | "genericcsv2pivot lib (csv_rows f) = Inr res"
    | "quadra2pivot lib (file_str f) = Inr res"
    | "extenso2pivot lib (csv_rows f) = Inr res"
    | "payfit2pivot lib (workbook f) = Inr res"
    | "cielpaye2pivot lib (csv_rows f) = Inr res"
    | "fectxt2pivot lib separator (csv_rows f) = Inr res"
    by (auto simp: file2pivot_def split: if_splits)
  then show ?thesis
  proof cases
    case 1
    then show ?thesis
      unfolding nibelis2pivot_def
      by (rule decoded_references_wellformed[OF _ assms(2)]) (rule row_references_wellformed)
  next
    case 2
    then show ?thesis
      unfolding genericcsv2pivot_def
      by (rule decoded_references_wellformed[OF _ assms(2)]) (rule row_references_wellformed)
  next
    case 3
    then show ?thesis
      unfolding quadra2pivot_def
      by (rule decoded_references_wellformed[OF _ assms(2)]) (rule row_references_wellformed)
  next
    case 4
    then show ?thesis
      unfolding extenso2pivot_def
      by (rule decoded_references_wellformed[OF _ assms(2)]) (rule row_references_wellformed)
  next
    case 5
    then have "decode_rows (payfit_row lib) 0 (workbook f ! 1) = Inr res"
      by (auto simp: payfit2pivot_def split: if_splits)
    then show ?thesis
      by (rule decoded_references_wellformed[OF _ assms(2)]) (rule row_references_wellformed)
  next
    case 6
    then show ?thesis
      unfolding cielpaye2pivot_def
      by (rule decoded_references_wellformed[OF _ assms(2)]) (rule row_references_wellformed)
  next
    case 7
    then have "decode_rows (fectxt_row lib) 0 (dict_reader fectxt_fieldnames (csv_rows f)) = Inr res"
      by (auto simp: fectxt2pivot_def split: if_splits)
    then show ?thesis
      by (rule decoded_references_wellformed[OF _ assms(2)]) (rule row_references_wellformed)
  qed
qed

text \<open>
  C10.  The claim: for every decoder, when partner and analytic are blank in the
  source data the pivot line omits the keys entirely.  The Nibelis decoder always
  stores the key \<^verbatim>\<open>analytic\<close>, with the value \<^verbatim>\<open>False\<close> when the column is blank.
  Amended: for a row whose partner or analytic column is blank, the Generic CSV and
  Payfit decoders leave the key out; the Nibelis decoder stores \<^verbatim>\<open>analytic\<close> as
  \<^verbatim>\<open>False\<close> and has no \<^verbatim>\<open>partner\<close>; the In Extenso, Ciel Paye, FEC and Quadra
  decoders never store either key.  For every format the references of every pivot
  line are well formed, so that none is an empty string and \<^verbatim>\<open>l.get(key)\<close> is false
  exactly when there is no reference.
\<close>

theorem blank_references_left_out:
  "(genericcsv_row lib i l = Inr (Some v) \<longrightarrow>
      (\<not> truthy (item_get l ''partner'') \<longrightarrow> v ''partner'' = None) \<and>
      (\<not> truthy (item_get l ''analytic'') \<longrightarrow> v ''analytic'' = None)) \<and>
   (payfit_row lib i row = Inr (Some v) \<longrightarrow>
      v ''partner'' = None \<and> (str_of lib (row ! 3) = [] \<longrightarrow> v ''analytic'' = None)) \<and>
   (nibelis_row lib i l = Inr (Some v) \<longrightarrow>
      v ''partner'' = None \<and>
      (\<not> truthy (item_get l ''analytic'') \<longrightarrow> v ''analytic'' = Some (PyBool False))) \<and>
   (extenso_row lib i l = Inr (Some v) \<longrightarrow> v ''partner'' = None \<and> v ''analytic'' = None) \<and>
   (cielpaye_row lib i l = Inr (Some v) \<longrightarrow> v ''partner'' = None \<and> v ''analytic'' = None) \<and>
   (fectxt_row lib i l = Inr (Some v) \<longrightarrow> v ''partner'' = None \<and> v ''analytic'' = None) \<and>
   (quadra_row lib i s = Inr (Some v) \<longrightarrow> v ''partner'' = None \<and> v ''analytic'' = None) \<and>
   (file2pivot lib file_format separator f = Inr res \<longrightarrow>
      (\<forall>v\<in>set res. references_wellformed v \<and>
         v ''partner'' \<noteq> Some (PyStr []) \<and> v ''analytic'' \<noteq> Some (PyStr []) \<and>
         (truthy (get v ''partner'') \<longleftrightarrow> v ''partner'' \<noteq> None) \<and>
         (truthy (get v ''analytic'') \<longleftrightarrow>
            v ''analytic'' \<noteq> None \<and> v ''analytic'' \<noteq> Some (PyBool False))))"
proof (intro conjI impI ballI)
  assume "genericcsv_row lib i l = Inr (Some v)"
  note g = genericcsv_row_emitted[OF this]
  { assume "\<not> truthy (item_get l ''partner'')"
    with g show "v ''partner'' = None" by auto }
  { assume "\<not> truthy (item_get l ''analytic'')"
    with g show "v ''analytic'' = None" by auto }
next
  assume "payfit_row lib i row = Inr (Some v)"
  note p = payfit_row_emitted[OF this]
  from p show "v ''partner'' = None" by simp
  { assume "str_of lib (row ! 3) = []"
    with p show "v ''analytic'' = None" by simp }
next
  assume "nibelis_row lib i l = Inr (Some v)"
  note n = nibelis_row_emitted[OF this]
  from n show "v ''partner'' = None" by auto
  { assume "\<not> truthy (item_get l ''analytic'')"
    with n show "v ''analytic'' = Some (PyBool False)" by auto }
next
  assume "extenso_row lib i l = Inr (Some v)"
  from extenso_row_emitted[OF this] show "v ''partner'' = None" "v ''analytic'' = None"
    by auto
next
  assume "cielpaye_row lib i l = Inr (Some v)"
  from cielpaye_row_emitted[OF this] show "v ''partner'' = None" "v ''analytic'' = None"
    by auto
next
  assume "fectxt_row lib i l = Inr (Some v)"
  from fectxt_row_emitted[OF this] show "v ''partner'' = None" "v ''analytic'' = None"
    by auto
next
  assume "quadra_row lib i s = Inr (Some v)"
  from quadra_row_emitted[OF this] show "v ''partner'' = None" "v ''analytic'' = None"
    by auto
next
  fix w
  assume "file2pivot lib file_format separator f = Inr res" and "w \<in> set res"
  then have wf: "references_wellformed w"
    by (rule file2pivot_references_wellformed)
  then show "references_wellformed w" .
  from wf show "w ''partner'' \<noteq> Some (PyStr [])" "w ''analytic'' \<noteq> Some (PyStr [])"
    by (auto simp: references_wellformed_def)
  from wf show "truthy (get w ''partner'') \<longleftrightarrow> w ''partner'' \<noteq> None"
    by (auto simp: references_wellformed_def get_def get_or_none_def
          split: option.splits pyval.splits)
  from wf show "truthy (get w ''analytic'') \<longleftrightarrow>
            w ''analytic'' \<noteq> None \<and> w ''analytic'' \<noteq> Some (PyBool False)"
    by (auto simp: references_wellformed_def get_def get_or_none_def
          split: option.splits pyval.splits)
qed

text \<open>
  The claim fails on a Nibelis record whose last column, the analytic account, is
  blank: the pivot line has the key \<^verbatim>\<open>analytic\<close>, with the value \<^verbatim>\<open>False\<close>.
\<close>

theorem nibelis_blank_analytic_counterexample:
  "nibelis2pivot plain_lib [example_header, example_nibelis] =
     Inr [[''journal'' \<mapsto> PyCode (PyStr ''OD''),
           ''account'' \<mapsto> PyCode (PyStr ''421000''),
           ''analytic'' \<mapsto> PyBool False,
           ''credit'' \<mapsto> PyFloat 1500,
           ''debit'' \<mapsto> PyBool False,
           ''date'' \<mapsto> PyDatetime (YMD 2017 2 15),
           ''name'' \<mapsto> PyStr ''Salaires'',
           ''line'' \<mapsto> PyInt 2]] \<and>
   last example_nibelis = [] \<and> length example_nibelis = length nibelis_fieldnames \<and>
   last nibelis_fieldnames = PyStr ''analytic'' \<and>
   [''journal'' \<mapsto> PyCode (PyStr ''OD''),
    ''account'' \<mapsto> PyCode (PyStr ''421000''),
    ''analytic'' \<mapsto> PyBool False,
    ''credit'' \<mapsto> PyFloat 1500,
    ''debit'' \<mapsto> PyBool False,
    ''date'' \<mapsto> PyDatetime (YMD 2017 2 15),
    ''name'' \<mapsto> PyStr ''Salaires'',
    ''line'' \<mapsto> PyInt 2] ''analytic'' = Some (PyBool False)"
proof -
  have ne: "example_header \<noteq> []" "example_nibelis \<noteq> []"
    by (simp_all add: example_header_def example_nibelis_def)
  then have rows: "dict_reader nibelis_fieldnames [example_header, example_nibelis] =
      [dict_reader_row nibelis_fieldnames example_header,
       dict_reader_row nibelis_fieldnames example_nibelis]"
    by (simp add: dict_reader_def)
  have h: "nibelis_row plain_lib 1 (dict_reader_row nibelis_fieldnames example_header) = Inr None"
    by (simp add: nibelis_row_def)
  have "nibelis2pivot plain_lib [example_header, example_nibelis] =
     Inr [[''journal'' \<mapsto> PyCode (PyStr ''OD''),
           ''account'' \<mapsto> PyCode (PyStr ''421000''),
           ''analytic'' \<mapsto> PyBool False,
           ''credit'' \<mapsto> PyFloat 1500,
           ''debit'' \<mapsto> PyBool False,
           ''date'' \<mapsto> PyDatetime (YMD 2017 2 15),
           ''name'' \<mapsto> PyStr ''Salaires'',
           ''line'' \<mapsto> PyInt 2]]"
    unfolding nibelis2pivot_def rows
    by (rule decode_after_header[of "nibelis_row plain_lib", OF h nibelis_row_example])
  moreover have "last example_nibelis = []" "length example_nibelis = length nibelis_fieldnames"
    "last nibelis_fieldnames = PyStr ''analytic''"
    by (simp_all add: example_nibelis_def nibelis_fieldnames_def)
  ultimately show ?thesis by simp
qed

lemma example_blank_columns:
  "\<not> truthy (item_get (dict_reader_row genericcsv_fieldnames example_genericcsv) ''partner'')"
  "\<not> truthy (item_get (dict_reader_row genericcsv_fieldnames example_genericcsv) ''analytic'')"
  "\<not> truthy (item_get (dict_reader_row nibelis_fieldnames example_nibelis) ''analytic'')"
  "str_of plain_lib (example_payfit ! 3) = []"
  by (simp_all add: genericcsv_fieldnames_def example_genericcsv_def nibelis_fieldnames_def
        example_nibelis_def example_payfit_def dict_reader_row_def item_get_def get_or_none_def
        str_of_def)

lemma genericcsv_file_example:
  "file2pivot plain_lib ''genericcsv'' []
     \<lparr> csv_rows = [example_genericcsv], file_str = [], workbook = [] \<rparr> =
   Inr [[''journal'' \<mapsto> PyCode (PyStr ''VT''),
         ''account'' \<mapsto> PyCode (PyStr ''411000''),
         ''credit'' \<mapsto> PyFloat 0,
         ''debit'' \<mapsto> PyFloat 120,
         ''date'' \<mapsto> PyDatetime (YMD 2017 2 15),
         ''name'' \<mapsto> PyStr ''Invoice'',
         ''line'' \<mapsto> PyInt 1]]"
proof -
  have "example_genericcsv \<noteq> []"
    by (simp add: example_genericcsv_def)
  then have "dict_reader genericcsv_fieldnames [example_genericcsv] =
      [dict_reader_row genericcsv_fieldnames example_genericcsv]"
    by (simp add: dict_reader_def)
  then show ?thesis
    by (simp add: file2pivot_def genericcsv2pivot_def
          decode_single[of "genericcsv_row plain_lib", OF genericcsv_row_example]
          del: decode_rows.simps)
qed

theorem blank_references_left_out_witness:
  "(\<exists>v. genericcsv_row plain_lib 1 (dict_reader_row genericcsv_fieldnames example_genericcsv) =
          Inr (Some v) \<and>
        \<not> truthy (item_get (dict_reader_row genericcsv_fieldnames example_genericcsv) ''partner'') \<and>
        \<not> truthy (item_get (dict_reader_row genericcsv_fieldnames example_genericcsv) ''analytic'') \<and>
        v ''partner'' = None \<and> v ''analytic'' = None) \<and>
   (\<exists>v. payfit_row plain_lib 2 example_payfit = Inr (Some v) \<and>
        str_of plain_lib (example_payfit ! 3) = [] \<and>
        v ''partner'' = None \<and> v ''analytic'' = None) \<and>
   (\<exists>v. nibelis_row plain_lib 2 (dict_reader_row nibelis_fieldnames example_nibelis) =
          Inr (Some v) \<and>
        \<not> truthy (item_get (dict_reader_row nibelis_fieldnames example_nibelis) ''analytic'') \<and>
        v ''partner'' = None \<and> v ''analytic'' = Some (PyBool False)) \<and>
   (\<exists>v. extenso_row plain_lib 1 (dict_reader_row extenso_fieldnames example_extenso) =
          Inr (Some v) \<and> v ''partner'' = None \<and> v ''analytic'' = None) \<and>
   (\<exists>v. cielpaye_row plain_lib 1 (dict_reader_row cielpaye_fieldnames example_cielpaye) =
          Inr (Some v) \<and> v ''partner'' = None \<and> v ''analytic'' = None) \<and>
   (\<exists>v. fectxt_row plain_lib 2 (dict_reader_row fectxt_fieldnames example_fectxt) =
          Inr (Some v) \<and> v ''partner'' = None \<and> v ''analytic'' = None) \<and>
   (\<exists>v. quadra_row plain_lib 2 example_quadra_row = Inr (Some v) \<and>
        v ''partner'' = None \<and> v ''analytic'' = None) \<and>
   (\<exists>res. file2pivot plain_lib ''genericcsv'' []
            \<lparr> csv_rows = [example_genericcsv], file_str = [], workbook = [] \<rparr> = Inr res \<and>
          length res = 1 \<and> list_all references_wellformed res)"
proof -
  note th = blank_references_left_out
  have g: "\<exists>v. genericcsv_row plain_lib 1 (dict_reader_row genericcsv_fieldnames example_genericcsv) =
          Inr (Some v) \<and>
        \<not> truthy (item_get (dict_reader_row genericcsv_fieldnames example_genericcsv) ''partner'') \<and>
        \<not> truthy (item_get (dict_reader_row genericcsv_fieldnames example_genericcsv) ''analytic'') \<and>
        v ''partner'' = None \<and> v ''analytic'' = None"
    using th[where lib = plain_lib and i = 1
        and l = "dict_reader_row genericcsv_fieldnames example_genericcsv",
        THEN conjunct1, rule_format, OF genericcsv_row_example]
      genericcsv_row_example example_blank_columns(1,2)
    by blast
  have p: "\<exists>v. payfit_row plain_lib 2 example_payfit = Inr (Some v) \<and>
        str_of plain_lib (example_payfit ! 3) = [] \<and>
        v ''partner'' = None \<and> v ''analytic'' = None"
    using th[where lib = plain_lib and i = 2 and row = example_payfit,
        THEN conjunct2, THEN conjunct1, rule_format, OF payfit_row_example]
      payfit_row_example example_blank_columns(4)
    by blast
  have n: "\<exists>v. nibelis_row plain_lib 2 (dict_reader_row nibelis_fieldnames example_nibelis) =
          Inr (Some v) \<and>
        \<not> truthy (item_get (dict_reader_row nibelis_fieldnames example_nibelis) ''analytic'') \<and>
        v ''partner'' = None \<and> v ''analytic'' = Some (PyBool False)"
    using th[where lib = plain_lib and i = 2
        and l = "dict_reader_row nibelis_fieldnames example_nibelis",
        THEN conjunct2, THEN conjunct2, THEN conjunct1, rule_format, OF nibelis_row_example]
      nibelis_row_example example_blank_columns(3)
    by blast
  have e: "\<exists>v. extenso_row plain_lib 1 (dict_reader_row extenso_fieldnames example_extenso) =
          Inr (Some v) \<and> v ''partner'' = None \<and> v ''analytic'' = None"
    using th[where lib = plain_lib and i = 1
        and l = "dict_reader_row extenso_fieldnames example_extenso",
        THEN conjunct2, THEN conjunct2, THEN conjunct2, THEN conjunct1, rule_format,
        OF extenso_row_example]
      extenso_row_example
    by blast
  have c: "\<exists>v. cielpaye_row plain_lib 1 (dict_reader_row cielpaye_fieldnames example_cielpaye) =
          Inr (Some v) \<and> v ''partner'' = None \<and> v ''analytic'' = None"
    using th[where lib = plain_lib and i = 1
        and l = "dict_reader_row cielpaye_fieldnames example_cielpaye",
        THEN conjunct2, THEN conjunct2, THEN conjunct2, THEN conjunct2, THEN conjunct1,
        rule_format, OF cielpaye_row_example]
      cielpaye_row_example
    by blast
  have f: "\<exists>v. fectxt_row plain_lib 2 (dict_reader_row fectxt_fieldnames example_fectxt) =
          Inr (Some v) \<and> v ''partner'' = None \<and> v ''analytic'' = None"
    using th[where lib = plain_lib and i = 2
        and l = "dict_reader_row fectxt_fieldnames example_fectxt",
        THEN conjunct2, THEN conjunct2, THEN conjunct2, THEN conjunct2, THEN conjunct2,
        THEN conjunct1, rule_format, OF fectxt_row_example]
      fectxt_row_example
    by blast
  have q: "\<exists>v. quadra_row plain_lib 2 example_quadra_row = Inr (Some v) \<and>
        v ''partner'' = None \<and> v ''analytic'' = None"
    using th[where lib = plain_lib and i = 2 and s = example_quadra_row,
        THEN conjunct2, THEN conjunct2, THEN conjunct2, THEN conjunct2, THEN conjunct2,
        THEN conjunct2, THEN conjunct1, rule_format, OF quadra_row_example]
      quadra_row_example
    by blast
  have w: "\<exists>res. file2pivot plain_lib ''genericcsv'' []
            \<lparr> csv_rows = [example_genericcsv], file_str = [], workbook = [] \<rparr> = Inr res \<and>
          length res = 1 \<and> list_all references_wellformed res"
    using th[where lib = plain_lib and file_format = "''genericcsv''" and separator = "[]"
        and f = "\<lparr> csv_rows = [example_genericcsv], file_str = [], workbook = [] \<rparr>",
        THEN conjunct2, THEN conjunct2, THEN conjunct2, THEN conjunct2, THEN conjunct2,
        THEN conjunct2, THEN conjunct2, rule_format, OF genericcsv_file_example]
      genericcsv_file_example
    by simp
  from g p n e c f q w show ?thesis
    by (intro conjI)
qed


end
